theory Spec2Isabelle
  imports Main
begin

section \<open>The Blackjack command (src/commands/games/blackjack.ts)\<close>

text \<open>
  The command is the caller of the Blackjack engine: it reads the bet, checks it, checks the
  balance, starts a game, feeds the player's reactions to the engine until the game is done and
  settles the balance. This theory embeds the command. Calls that leave the command (to the
  engine, to the coin store, to Discord) are written into a chronological list of events, and
  the engine's state is passed along explicitly. The calls to Discord and to the coin store are
  taken to return normally; what the command itself throws and catches is modelled.
\<close>

subsection \<open>Data of the engine interface\<close>

datatype BlackjackAction = HIT | STAND | QUIT

text \<open>
  Modelled from the spec: the enum \<open>BlackjackStage\<close> is declared in
  components/games/blackjack, which is not among the sources; the command only ever compares a
  stage with \<open>DONE\<close>. The spec (section 3) gives the stages as IN_PROGRESS and DONE.
\<close>

datatype BlackjackStage = IN_PROGRESS | DONE

text \<open>A card as the command reads it: \<open>card.text\<close> and \<open>card.suite\<close>.\<close>

record Card =
  card_text :: string
  suite :: string

text \<open>
  The fields of \<open>GameState\<close> that the command reads. Coin amounts are integers: the bet is
  parsed as an integer, and the spec gives \<open>amountWon\<close> as an integer.
\<close>

record GameState =
  stage :: BlackjackStage
  bet :: int
  amountWon :: int
  surrendered :: bool
  playerCards :: "Card list"
  dealerCards :: "Card list"
  playerValue :: "int list"
  dealerValue :: "int list"

datatype UserCoinEvent = Blackjack

subsection \<open>Data of the Discord side\<close>

text \<open>The three regional-indicator emojis of the source, as their UTF-8 bytes.\<close>

definition emoji_S :: string where
  "emoji_S = [CHR 0xF0, CHR 0x9F, CHR 0x87, CHR 0xB8]"

definition emoji_H :: string where
  "emoji_H = [CHR 0xF0, CHR 0x9F, CHR 0x87, CHR 0xAD]"

definition emoji_Q :: string where
  "emoji_Q = [CHR 0xF0, CHR 0x9F, CHR 0x87, CHR 0xB6]"

text \<open>\<open>reaction.emoji.name\<close> is a string or null; \<open>user.id\<close> is a string.\<close>

record MessageReaction =
  emoji_name :: "string option"

record User =
  user_id :: string

text \<open>The options the command passes to \<open>awaitReactions\<close>; \<open>time\<close> is in milliseconds.\<close>

record AwaitReactionsOptions =
  opt_max :: nat
  opt_time :: nat
  opt_errors :: "string list"

text \<open>
  The promise of \<open>awaitReactions\<close> either rejects (the collector stopped for a reason listed
  in \<open>errors\<close>) or resolves with the collected reactions.
\<close>

datatype awaited = Rejected | Resolved "MessageReaction list"

text \<open>
  One wait for a reaction is Discord's answer to the options and the filter it is given. The
  command's behaviour is stated for every such answer.
\<close>

type_synonym awaitReactions =
  "AwaitReactionsOptions \<Rightarrow> (MessageReaction \<Rightarrow> User \<Rightarrow> bool) \<Rightarrow> awaited"

datatype Colors = Red | Green | Orange | Yellow

text \<open>
  The embed shown to the player. Its title and colour are kept; the three text fields are
  rendered from the game alone and are represented by that game.
\<close>

record Embed =
  embed_title :: string
  embed_color :: Colors
  embed_game :: GameState

text \<open>What can be thrown inside \<open>messageRun\<close>.\<close>

datatype exn =
    CodeyUserError string
  | TypeError
  | CollectorRejected

text \<open>The calls that leave the command, in the order they are made.\<close>

datatype event =
    GetCoinBalanceByUserId string
  | StartGame int string string "GameState option"
  | PerformGameAction string BlackjackAction "GameState option"
  | EndGame string
  | AdjustCoinBalanceByUserId string int UserCoinEvent
  | MessageReply string
  | MessageReplyEmbed Embed
  | MsgReact string
  | MsgEdit Embed
  | ReactionUserRemove string
  | ReactionsRemoveAll
  | SendToUser string

text \<open>
  The collaborators of the command that are not among the sources are parameters: the three
  engine calls, over an engine state of any type \<open>'e\<close>, and \<open>getEmojiByName\<close>.
  Each engine call returns its result and the engine's new state.
\<close>

record 'e deps =
  dep_startGame :: "int \<Rightarrow> string \<Rightarrow> string \<Rightarrow> 'e \<Rightarrow> GameState option \<times> 'e"
  dep_performGameAction :: "string \<Rightarrow> BlackjackAction \<Rightarrow> 'e \<Rightarrow> GameState option \<times> 'e"
  dep_endGame :: "string \<Rightarrow> 'e \<Rightarrow> 'e"
  dep_getEmojiByName :: "string \<Rightarrow> string"

subsection \<open>Bet validation\<close>

definition DEFAULT_BET :: int where
  "DEFAULT_BET = 10"

definition MIN_BET :: int where
  "MIN_BET = 10"

definition MAX_BET :: int where
  "MAX_BET = 1000000"

text \<open>Decimal rendering of a number inside a template literal.\<close>

fun showNat :: "nat \<Rightarrow> string" where
  "showNat n =
     (if n < 10 then [''0123456789'' ! n]
      else showNat (n div 10) @ [''0123456789'' ! (n mod 10)])"

declare showNat.simps [simp del]

definition showInt :: "int \<Rightarrow> string" where
  "showInt i = (if i < 0 then CHR ''-'' # showNat (nat (- i)) else showNat (nat i))"

definition validateBetAmount :: "int \<Rightarrow> string" where
  "validateBetAmount amount =
     (if amount < MIN_BET then ''minimum bet is '' @ showInt MIN_BET @ '' Codey coins.''
      else if amount > MAX_BET then ''maximum bet is '' @ showInt MAX_BET @ '' Codey coins.''
      else '''')"

subsection \<open>Reactions\<close>

definition reactFilter :: "MessageReaction \<Rightarrow> User \<Rightarrow> string \<Rightarrow> bool" where
  "reactFilter reaction user authorId =
     (case emoji_name reaction of
        None \<Rightarrow> False
      | Some name \<Rightarrow> name \<in> set [emoji_S, emoji_H, emoji_Q] \<and> user_id user = authorId)"

text \<open>\<open>collected.first()\<close>: the first collected reaction, or undefined.\<close>

definition first :: "'a list \<Rightarrow> 'a option" where
  "first collected = (case collected of [] \<Rightarrow> None | r # _ \<Rightarrow> Some r)"

text \<open>A call of the engine's \<open>performGameAction\<close>, written into the events with its result.\<close>

definition callPerformGameAction ::
  "'e deps \<Rightarrow> string \<Rightarrow> BlackjackAction \<Rightarrow> 'e \<Rightarrow> GameState option \<times> 'e \<times> event list" where
  "callPerformGameAction d playerId action e =
     (case dep_performGameAction d playerId action e of
        (game, e') \<Rightarrow> (game, e', [PerformGameAction playerId action game]))"

text \<open>
  \<open>reaction?.emoji.name\<close> is undefined for an absent reaction and may be null; both fall to
  the default branch of the switch.
\<close>

definition performActionFromReaction ::
  "'e deps \<Rightarrow> MessageReaction list \<Rightarrow> string \<Rightarrow> 'e \<Rightarrow> GameState option \<times> 'e \<times> event list" where
  "performActionFromReaction d collected playerId e =
     (let reaction = first collected;
          removed = (case reaction of None \<Rightarrow> [] | Some _ \<Rightarrow> [ReactionUserRemove playerId]);
          (game, e', evs) =
            (case Option.bind reaction emoji_name of
               None \<Rightarrow> (None, e, [])
             | Some name \<Rightarrow>
                 if name = emoji_S then callPerformGameAction d playerId STAND e
                 else if name = emoji_H then callPerformGameAction d playerId HIT e
                 else if name = emoji_Q then callPerformGameAction d playerId QUIT e
                 else (None, e, []))
      in (game, e', removed @ evs))"

definition awaitOptions :: AwaitReactionsOptions where
  "awaitOptions = \<lparr>opt_max = 1, opt_time = 60000, opt_errors = [''time'']\<rparr>"

definition handlePlayerAction ::
  "'e deps \<Rightarrow> awaitReactions \<Rightarrow> string \<Rightarrow> 'e \<Rightarrow> (exn + GameState option) \<times> 'e \<times> event list" where
  "handlePlayerAction d aw playerId e =
     (case aw awaitOptions (\<lambda>reaction user. reactFilter reaction user playerId) of
        Rejected \<Rightarrow> (Inl CollectorRejected, e, [])
      | Resolved reactCollector \<Rightarrow>
          (case performActionFromReaction d reactCollector playerId e of
             (game, e', evs) \<Rightarrow> (Inr game, e', evs)))"

subsection \<open>Rendering\<close>

definition getBalanceChange :: "GameState \<Rightarrow> int" where
  "getBalanceChange game = amountWon game - bet game"

definition getEmbedColourFromGame :: "GameState \<Rightarrow> Colors" where
  "getEmbedColourFromGame game =
     (if stage game = DONE then
        (if getBalanceChange game < 0 then Red
         else if getBalanceChange game > 0 then Green
         else Orange)
      else Yellow)"

definition getEmbedFromGame :: "GameState \<Rightarrow> Embed" where
  "getEmbedFromGame game =
     \<lparr>embed_title = ''Blackjack'', embed_color = getEmbedColourFromGame game, embed_game = game\<rparr>"

text \<open>
  \<open>getEmbedFromGame(game!)\<close>: the assertion \<open>!\<close> checks nothing when the program runs, and
  reading \<open>game.stage\<close> of null throws a TypeError.
\<close>

definition getEmbedFromGame_unchecked :: "GameState option \<Rightarrow> exn + Embed" where
  "getEmbedFromGame_unchecked game =
     (case game of None \<Rightarrow> Inl TypeError | Some g \<Rightarrow> Inr (getEmbedFromGame g))"

subsection \<open>Ending a game\<close>

text \<open>
  The command's own \<open>endGame\<close> method (the engine's \<open>endGame\<close> is the parameter
  \<open>dep_endGame\<close>): it clears the reactions, ends the game in the engine and adjusts the balance.
\<close>

definition this_endGame :: "'e deps \<Rightarrow> string \<Rightarrow> int \<Rightarrow> 'e \<Rightarrow> 'e \<times> event list" where
  "this_endGame d playerId balanceChange e =
     (dep_endGame d playerId e,
      [ReactionsRemoveAll, EndGame playerId,
       AdjustCoinBalanceByUserId playerId balanceChange Blackjack])"

subsection \<open>The game loop\<close>

text \<open>The body of the \<open>try\<close> inside the loop: the new value of \<open>game\<close>, or what was thrown.\<close>

definition loopTry ::
  "'e deps \<Rightarrow> awaitReactions \<Rightarrow> string \<Rightarrow> 'e \<Rightarrow> (exn + GameState option) \<times> 'e \<times> event list" where
  "loopTry d aw authorId e =
     (case handlePlayerAction d aw authorId e of
        (Inl x, e', evs) \<Rightarrow> (Inl x, e', evs)
      | (Inr game, e', evs) \<Rightarrow>
          (case getEmbedFromGame_unchecked game of
             Inl x \<Rightarrow> (Inl x, e', evs)
           | Inr emb \<Rightarrow> (Inr game, e', evs @ [MsgEdit emb])))"

definition timeLimitReply :: string where
  "timeLimitReply =
     ''you didn'' @ [CHR 0x27] @ ''t act within the time limit, please start another game!''"

text \<open>
  One turn of the loop. The \<open>catch\<close> has no binding: it runs for anything thrown in the
  \<open>try\<close>. It submits QUIT, replies, and sets the stage of a non-null result to DONE. The
  assignment is to the object the engine returned; here it changes the command's value of
  \<open>game\<close>, and the engine's state is what the engine call returned.
\<close>

definition loopBody ::
  "'e deps \<Rightarrow> awaitReactions \<Rightarrow> string \<Rightarrow> 'e \<Rightarrow> GameState option \<times> 'e \<times> event list" where
  "loopBody d aw authorId e =
     (case loopTry d aw authorId e of
        (Inr game, e', evs) \<Rightarrow> (game, e', evs)
      | (Inl _, e', evs) \<Rightarrow>
          (case callPerformGameAction d authorId QUIT e' of
             (game, e'', evs') \<Rightarrow>
               (map_option (\<lambda>g. g\<lparr>stage := DONE\<rparr>) game, e'',
                evs @ evs' @ [MessageReply timeLimitReply])))"

text \<open>
  \<open>while (game && game?.stage != BlackjackStage.DONE)\<close>. Every turn waits for Discord once;
  the waits are given as a list. The result is None when the loop is still waiting after the
  last of them.
\<close>

fun gameLoop ::
  "'e deps \<Rightarrow> string \<Rightarrow> awaitReactions list \<Rightarrow> GameState option \<Rightarrow> 'e
     \<Rightarrow> (GameState option \<times> 'e \<times> event list) option" where
  "gameLoop d authorId aws None e = Some (None, e, [])"
| "gameLoop d authorId [] (Some g) e =
     (if stage g \<noteq> DONE then None else Some (Some g, e, []))"
| "gameLoop d authorId (aw # aws) (Some g) e =
     (if stage g \<noteq> DONE then
        (case loopBody d aw authorId e of
           (game, e', evs) \<Rightarrow>
             (case gameLoop d authorId aws game e' of
                None \<Rightarrow> None
              | Some (game', e'', evs') \<Rightarrow> Some (game', e'', evs @ evs')))
      else Some (Some g, e, []))"

subsection \<open>The command\<close>

text \<open>
  The arguments: none left (\<open>args.finished\<close>), or the rest of them parsed as an integer, which
  succeeds with a number or fails.
\<close>

datatype Args = Finished | RestInteger int | RestInvalid

datatype returned = ReturnedMessage | ReturnedVoid

text \<open>The outer \<open>catch\<close>: a \<open>CodeyUserError\<close> is sent to the user, anything else is dropped.\<close>

definition outerCatch :: "exn \<Rightarrow> event list" where
  "outerCatch x = (case x of CodeyUserError m \<Rightarrow> [SendToUser m] | _ \<Rightarrow> [])"

text \<open>
  The bet: the default when there are no arguments, else the integer, else a
  \<open>CodeyUserError\<close> (the first statement of \<open>messageRun\<close>).
\<close>

definition resolveBet :: "Args \<Rightarrow> exn + int" where
  "resolveBet args =
     (case args of
        Finished \<Rightarrow> Inr DEFAULT_BET
      | RestInteger n \<Rightarrow> Inr n
      | RestInvalid \<Rightarrow> Inl (CodeyUserError ''please enter a valid bet amount.''))"

definition notEnoughCoins :: "'e deps \<Rightarrow> string" where
  "notEnoughCoins d =
     ''you don'' @ [CHR 0x27] @ ''t have enough coins to place that bet. ''
       @ dep_getEmojiByName d ''codey_sad''"

text \<open>
  \<open>messageRun\<close>, with the player's balance as read from the coin store and the waits of the
  loop as arguments; \<open>b\<close> is the source's \<open>bet\<close>. The branch \<open>typeof bet === 'string'\<close> is never
  taken: the bet is a number.
\<close>

definition messageRun ::
  "'e deps \<Rightarrow> Args \<Rightarrow> string \<Rightarrow> string \<Rightarrow> int \<Rightarrow> awaitReactions list \<Rightarrow> 'e
     \<Rightarrow> (returned \<times> 'e \<times> event list) option" where
  "messageRun d args authorId channelId playerBalance aws e =
     (case resolveBet args of
        Inl x \<Rightarrow> Some (ReturnedVoid, e, outerCatch x)
      | Inr b \<Rightarrow>
          let validateRes = validateBetAmount b in
          if validateRes \<noteq> '''' then
            Some (ReturnedVoid, e, outerCatch (CodeyUserError validateRes))
          else if playerBalance < b then
            Some (ReturnedVoid, e,
                  GetCoinBalanceByUserId authorId # outerCatch (CodeyUserError (notEnoughCoins d)))
          else
            (case dep_startGame d b authorId channelId e of
               (None, e1) \<Rightarrow>
                 Some (ReturnedVoid, e1,
                       [GetCoinBalanceByUserId authorId, StartGame b authorId channelId None]
                         @ outerCatch (CodeyUserError
                             ''please finish your current game before starting another one!''))
             | (Some g, e1) \<Rightarrow>
                 let shown =
                       [GetCoinBalanceByUserId authorId, StartGame b authorId channelId (Some g),
                        MessageReplyEmbed (getEmbedFromGame g)]
                         @ (if stage g \<noteq> DONE
                            then [MsgReact emoji_H, MsgReact emoji_S, MsgReact emoji_Q] else [])
                 in (case gameLoop d authorId aws (Some g) e1 of
                       None \<Rightarrow> None
                     | Some (None, e2, evs) \<Rightarrow> Some (ReturnedVoid, e2, shown @ evs)
                     | Some (Some g', e2, evs) \<Rightarrow>
                         (case this_endGame d authorId (getBalanceChange g') e2 of
                            (e3, evs') \<Rightarrow>
                              Some (ReturnedMessage, e3,
                                    shown @ evs @ [MsgEdit (getEmbedFromGame g')] @ evs')))))"

subsection \<open>The engine, from the specification\<close>

text \<open>
  The engine (components/games/blackjack) is not among the sources. Where a property depends
  on what the engine does, the engine is the following one, written from sections 4.4 and 4.5 of
  the spec. Its state is the registry, a map from player ids to games.
\<close>

type_synonym registry = "string \<rightharpoonup> GameState"

text \<open>
  Modelled from the spec: \<open>startGame\<close> of components/games/blackjack is missing. "Fails
  (returns null) if the registry already holds an active game for playerId. Otherwise shuffles a
  deck, deals [...] and registers the instance." The dealing (shuffle, four cards, the deal-time
  shortcut) is the parameter \<open>deal\<close>.
\<close>

definition startGame ::
  "(int \<Rightarrow> string \<Rightarrow> string \<Rightarrow> GameState) \<Rightarrow> int \<Rightarrow> string \<Rightarrow> string \<Rightarrow> registry
     \<Rightarrow> GameState option \<times> registry" where
  "startGame deal b playerId channelId reg =
     (case reg playerId of
        Some _ \<Rightarrow> (None, reg)
      | None \<Rightarrow>
          (Some (deal b playerId channelId), reg(playerId \<mapsto> deal b playerId channelId)))"

text \<open>
  Modelled from the spec: \<open>performGameAction\<close> of components/games/blackjack is missing.
  "Precondition for any transition: a GameState exists for playerId and its stage is IN_PROGRESS;
  otherwise returns a null/no-op result." "QUIT: mark surrendered = true, settle as a full loss
  (amountWon = 0) regardless of current hand value, move to DONE." The transitions of HIT and
  STAND (drawing, the dealer's strategy, settlement) are the parameters \<open>hit\<close> and \<open>stand\<close>.
\<close>

definition performGameAction ::
  "(GameState \<Rightarrow> GameState) \<Rightarrow> (GameState \<Rightarrow> GameState) \<Rightarrow> string \<Rightarrow> BlackjackAction \<Rightarrow> registry
     \<Rightarrow> GameState option \<times> registry" where
  "performGameAction hit stand playerId action reg =
     (case reg playerId of
        None \<Rightarrow> (None, reg)
      | Some g \<Rightarrow>
          if stage g \<noteq> IN_PROGRESS then (None, reg)
          else
            (let g' = (case action of
                         HIT \<Rightarrow> hit g
                       | STAND \<Rightarrow> stand g
                       | QUIT \<Rightarrow> g\<lparr>surrendered := True, amountWon := 0, stage := DONE\<rparr>)
             in (Some g', reg(playerId \<mapsto> g'))))"

text \<open>
  Modelled from the spec: \<open>endGame\<close> of components/games/blackjack is missing. "Removes the
  instance from the registry unconditionally."
\<close>

definition endGame :: "string \<Rightarrow> registry \<Rightarrow> registry" where
  "endGame playerId reg = reg(playerId := None)"

definition specEngine ::
  "(int \<Rightarrow> string \<Rightarrow> string \<Rightarrow> GameState) \<Rightarrow> (GameState \<Rightarrow> GameState) \<Rightarrow> (GameState \<Rightarrow> GameState)
     \<Rightarrow> (string \<Rightarrow> string) \<Rightarrow> registry deps" where
  "specEngine deal hit stand emojis =
     \<lparr>dep_startGame = startGame deal,
      dep_performGameAction = performGameAction hit stand,
      dep_endGame = endGame,
      dep_getEmojiByName = emojis\<rparr>"

subsection \<open>Notions used in the statements\<close>

text \<open>The two calls that settle a game: the engine's \<open>endGame\<close> and the balance adjustment.\<close>

fun isSettlement :: "event \<Rightarrow> bool" where
  "isSettlement (EndGame _) = True"
| "isSettlement (AdjustCoinBalanceByUserId _ _ _) = True"
| "isSettlement _ = False"

text \<open>
  An engine for which a null result is final: after \<open>performGameAction\<close> has returned null
  for a player, QUIT for that player returns null as well. This is section 4.4 of the spec: null
  means that the player has no game in progress, and the call changes nothing.
\<close>

definition nullStaysNull :: "'e deps \<Rightarrow> bool" where
  "nullStaysNull d =
     (\<forall>playerId action e.
        fst (dep_performGameAction d playerId action e) = None \<longrightarrow>
        fst (dep_performGameAction d playerId QUIT
               (snd (dep_performGameAction d playerId action e))) = None)"

text \<open>What \<open>messageRun\<close> has done when the loop starts, for the bet \<open>b\<close> and the new game.\<close>

definition shown :: "int \<Rightarrow> string \<Rightarrow> string \<Rightarrow> GameState \<Rightarrow> event list" where
  "shown b authorId channelId g =
     [GetCoinBalanceByUserId authorId, StartGame b authorId channelId (Some g),
      MessageReplyEmbed (getEmbedFromGame g)]
       @ (if stage g \<noteq> DONE then [MsgReact emoji_H, MsgReact emoji_S, MsgReact emoji_Q] else [])"

text \<open>
  The mapping from reactions to actions as the specification words it, to be compared with
  the switch of \<open>performActionFromReaction\<close>.
\<close>

definition claimedAction :: "string option \<Rightarrow> BlackjackAction option" where
  "claimedAction name =
     (if name = Some emoji_S then Some STAND
      else if name = Some emoji_H then Some HIT
      else if name = Some emoji_Q then Some QUIT
      else None)"

subsection \<open>Instances to run the command on\<close>

definition demoGame :: "int \<Rightarrow> GameState" where
  "demoGame b =
     \<lparr>stage = IN_PROGRESS, bet = b, amountWon = 0, surrendered = False,
      playerCards = [\<lparr>card_text = ''9'', suite = ''spades''\<rparr>,
                     \<lparr>card_text = ''8'', suite = ''hearts''\<rparr>],
      dealerCards = [\<lparr>card_text = ''K'', suite = ''clubs''\<rparr>],
      playerValue = [17], dealerValue = [10]\<rparr>"

definition demoDeal :: "int \<Rightarrow> string \<Rightarrow> string \<Rightarrow> GameState" where
  "demoDeal b playerId channelId = demoGame b"

text \<open>A hit that busts the player, and a stand that the player wins.\<close>

definition demoHit :: "GameState \<Rightarrow> GameState" where
  "demoHit g = g\<lparr>playerValue := [27], amountWon := 0, stage := DONE\<rparr>"

definition demoStand :: "GameState \<Rightarrow> GameState" where
  "demoStand g = g\<lparr>dealerValue := [16], amountWon := 2 * bet g, stage := DONE\<rparr>"

definition demoEmoji :: "string \<Rightarrow> string" where
  "demoEmoji name = '':'' @ name @ '':''"

definition demo :: "registry deps" where
  "demo = specEngine demoDeal demoHit demoStand demoEmoji"

text \<open>
  An engine that hands out a game without registering it, so that every later action finds no
  game and returns null.
\<close>

definition unregistered :: "registry deps" where
  "unregistered =
     \<lparr>dep_startGame = (\<lambda>b playerId channelId reg. (Some (demoGame b), reg)),
      dep_performGameAction = performGameAction demoHit demoStand,
      dep_endGame = endGame,
      dep_getEmojiByName = demoEmoji\<rparr>"

text \<open>Three waits: no reaction in time, and the player's reaction S or Q.\<close>

definition waitTimesOut :: awaitReactions where
  "waitTimesOut opts flt = Rejected"

definition waitCollects :: "string \<Rightarrow> string \<Rightarrow> awaitReactions" where
  "waitCollects name userId opts flt =
     (if flt \<lparr>emoji_name = Some name\<rparr> \<lparr>user_id = userId\<rparr>
      then Resolved [\<lparr>emoji_name = Some name\<rparr>] else Rejected)"

section \<open>Properties\<close>

subsection \<open>Auxiliary facts\<close>

lemma show_MIN_BET: "showInt MIN_BET = ''10''"
  by (simp add: showInt_def MIN_BET_def showNat.simps)

lemma show_MAX_BET: "showInt MAX_BET = ''1000000''"
  by (simp add: showInt_def MAX_BET_def showNat.simps)

lemma validateBetAmount_empty_iff:
  "validateBetAmount amount = '''' \<longleftrightarrow> MIN_BET \<le> amount \<and> amount \<le> MAX_BET"
  by (simp add: validateBetAmount_def)

lemma callPerformGameAction_eq:
  "callPerformGameAction d p a e =
     (fst (dep_performGameAction d p a e), snd (dep_performGameAction d p a e),
      [PerformGameAction p a (fst (dep_performGameAction d p a e))])"
  by (simp add: callPerformGameAction_def split: prod.splits)

lemma performActionFromReaction_no_settlement:
  assumes "performActionFromReaction d collected playerId e = (game, e', evs)"
  shows "\<forall>ev\<in>set evs. \<not> isSettlement ev"
  using assms
  by (auto simp: performActionFromReaction_def callPerformGameAction_eq first_def Let_def
      split: list.splits option.splits if_splits)

lemma performActionFromReaction_null:
  assumes "performActionFromReaction d collected playerId e = (game, e', evs)"
    and "PerformGameAction p act None \<in> set evs"
  shows "game = None \<and> fst (dep_performGameAction d playerId act e) = None
         \<and> e' = snd (dep_performGameAction d playerId act e) \<and> p = playerId"
  using assms
  by (auto simp: performActionFromReaction_def callPerformGameAction_eq first_def Let_def
      split: list.splits option.splits if_splits)

lemma performActionFromReaction_result:
  assumes "performActionFromReaction d collected playerId e = (Some g, e', evs)"
  shows "PerformGameAction p act None \<notin> set evs"
  using assms performActionFromReaction_null by fastforce


lemma loopTry_no_settlement:
  assumes "loopTry d aw a e = (r, e', evs)"
  shows "\<forall>ev\<in>set evs. \<not> isSettlement ev"
proof (cases "aw awaitOptions (\<lambda>reaction user. reactFilter reaction user a)")
  case Rejected
  with assms show ?thesis
    by (auto simp: loopTry_def handlePlayerAction_def)
next
  case (Resolved collected)
  obtain game e1 evs1 where p: "performActionFromReaction d collected a e = (game, e1, evs1)"
    by (cases "performActionFromReaction d collected a e") auto
  from performActionFromReaction_no_settlement [OF p] assms Resolved p show ?thesis
    by (auto simp: loopTry_def handlePlayerAction_def getEmbedFromGame_unchecked_def
        split: option.splits)
qed

lemma loopTry_Inr:
  assumes "loopTry d aw a e = (Inr game, e', evs)"
  shows "(\<exists>g. game = Some g) \<and> (\<forall>p act. PerformGameAction p act None \<notin> set evs)"
proof (cases "aw awaitOptions (\<lambda>reaction user. reactFilter reaction user a)")
  case Rejected
  with assms show ?thesis
    by (auto simp: loopTry_def handlePlayerAction_def)
next
  case (Resolved collected)
  obtain game1 e1 evs1 where p: "performActionFromReaction d collected a e = (game1, e1, evs1)"
    by (cases "performActionFromReaction d collected a e") auto
  from assms Resolved p obtain g where g: "game1 = Some g" "game = Some g"
    and evs: "evs = evs1 @ [MsgEdit (getEmbedFromGame g)]"
    by (auto simp: loopTry_def handlePlayerAction_def getEmbedFromGame_unchecked_def
        split: option.splits)
  from performActionFromReaction_result [OF p [unfolded g(1)]] g evs show ?thesis
    by auto
qed

lemma loopTry_Inl_null:
  assumes "loopTry d aw a e = (Inl x, e', evs)"
    and "PerformGameAction p act None \<in> set evs"
  shows "fst (dep_performGameAction d a act e) = None
         \<and> e' = snd (dep_performGameAction d a act e) \<and> p = a"
proof (cases "aw awaitOptions (\<lambda>reaction user. reactFilter reaction user a)")
  case Rejected
  with assms show ?thesis
    by (auto simp: loopTry_def handlePlayerAction_def)
next
  case (Resolved collected)
  obtain game1 e1 evs1 where p: "performActionFromReaction d collected a e = (game1, e1, evs1)"
    by (cases "performActionFromReaction d collected a e") auto
  from assms Resolved p have "evs = evs1" "e' = e1"
    by (auto simp: loopTry_def handlePlayerAction_def getEmbedFromGame_unchecked_def
        split: option.splits)
  with performActionFromReaction_null [OF p] assms(2) show ?thesis
    by auto
qed

lemma loopBody_no_settlement:
  assumes "loopBody d aw a e = (game, e', evs)"
  shows "\<forall>ev\<in>set evs. \<not> isSettlement ev"
proof -
  obtain r e1 evs1 where t: "loopTry d aw a e = (r, e1, evs1)"
    by (cases "loopTry d aw a e") auto
  from loopTry_no_settlement [OF t] assms t show ?thesis
    by (cases r) (auto simp: loopBody_def callPerformGameAction_eq)
qed

lemma loopBody_continues:
  assumes "loopBody d aw a e = (Some g, e', evs)" and "stage g \<noteq> DONE"
  shows "\<exists>evs'. loopTry d aw a e = (Inr (Some g), e', evs')"
proof -
  obtain r e1 evs1 where t: "loopTry d aw a e = (r, e1, evs1)"
    by (cases "loopTry d aw a e") auto
  from assms t show ?thesis
    by (cases r) (auto simp: loopBody_def callPerformGameAction_eq)
qed

lemma loopBody_null:
  assumes "nullStaysNull d"
    and "loopBody d aw a e = (game, e', evs)"
    and "PerformGameAction p act None \<in> set evs"
  shows "game = None"
proof -
  obtain r e1 evs1 where t: "loopTry d aw a e = (r, e1, evs1)"
    by (cases "loopTry d aw a e") auto
  show ?thesis
  proof (cases r)
    case (Inr game1)
    with loopTry_Inr [of d aw a e game1 e1 evs1] t assms(2,3) show ?thesis
      by (auto simp: loopBody_def)
  next
    case (Inl x)
    with t assms(2) have game: "game = map_option (\<lambda>g. g\<lparr>stage := DONE\<rparr>)
                                   (fst (dep_performGameAction d a QUIT e1))"
      and evs: "evs = evs1 @ [PerformGameAction a QUIT (fst (dep_performGameAction d a QUIT e1)),
                              MessageReply timeLimitReply]"
      by (auto simp: loopBody_def callPerformGameAction_eq)
    show ?thesis
    proof (cases "PerformGameAction p act None \<in> set evs1")
      case True
      from loopTry_Inl_null [OF t [unfolded Inl] True]
      have "fst (dep_performGameAction d a act e) = None"
        and "e1 = snd (dep_performGameAction d a act e)"
        by auto
      with assms(1) have "fst (dep_performGameAction d a QUIT e1) = None"
        by (simp add: nullStaysNull_def)
      with game show ?thesis by simp
    next
      case False
      with assms(3) evs have "fst (dep_performGameAction d a QUIT e1) = None"
        by auto
      with game show ?thesis by simp
    qed
  qed
qed

lemma gameLoop_no_settlement:
  "gameLoop d a aws game e = Some (game', e', evs) \<Longrightarrow> \<forall>ev\<in>set evs. \<not> isSettlement ev"
proof (induction d a aws game e arbitrary: game' e' evs rule: gameLoop.induct)
  case (3 d a aw aws g e)
  show ?case
  proof (cases "stage g \<noteq> DONE")
    case False
    with "3.prems" show ?thesis by simp
  next
    case True
    obtain game1 e1 evs1 where b: "loopBody d aw a e = (game1, e1, evs1)"
      by (cases "loopBody d aw a e") auto
    with True "3.prems" obtain evs2 where
      r: "gameLoop d a aws game1 e1 = Some (game', e', evs2)" and evs: "evs = evs1 @ evs2"
      by (auto split: option.splits)
    from "3.IH" [OF True b [symmetric] refl r] loopBody_no_settlement [OF b] evs
    show ?thesis by auto
  qed
qed (auto split: if_splits)

lemma gameLoop_final_stage:
  "gameLoop d a aws game e = Some (Some g', e', evs) \<Longrightarrow> stage g' = DONE"
proof (induction d a aws game e arbitrary: g' e' evs rule: gameLoop.induct)
  case (3 d a aw aws g e)
  show ?case
  proof (cases "stage g \<noteq> DONE")
    case False
    with "3.prems" show ?thesis by simp
  next
    case True
    obtain game1 e1 evs1 where b: "loopBody d aw a e = (game1, e1, evs1)"
      by (cases "loopBody d aw a e") auto
    with True "3.prems" obtain evs2 where
      r: "gameLoop d a aws game1 e1 = Some (Some g', e', evs2)"
      by (auto split: option.splits)
    from "3.IH" [OF True b [symmetric] refl r] show ?thesis .
  qed
qed (auto split: if_splits)

lemma gameLoop_null:
  "nullStaysNull d \<Longrightarrow> gameLoop d a aws game e = Some (game', e', evs) \<Longrightarrow>
   PerformGameAction p act None \<in> set evs \<Longrightarrow> game' = None"
proof (induction d a aws game e arbitrary: game' e' evs rule: gameLoop.induct)
  case (3 d a aw aws g e)
  show ?case
  proof (cases "stage g \<noteq> DONE")
    case False
    with "3.prems" show ?thesis by simp
  next
    case True
    obtain game1 e1 evs1 where b: "loopBody d aw a e = (game1, e1, evs1)"
      by (cases "loopBody d aw a e") auto
    with True "3.prems" obtain evs2 where
      r: "gameLoop d a aws game1 e1 = Some (game', e', evs2)" and evs: "evs = evs1 @ evs2"
      by (auto split: option.splits)
    show ?thesis
    proof (cases "PerformGameAction p act None \<in> set evs1")
      case True
      from loopBody_null [OF "3.prems"(1) b True] have "game1 = None" .
      with r show ?thesis by simp
    next
      case False
      with "3.prems"(3) evs have "PerformGameAction p act None \<in> set evs2" by auto
      from "3.IH" [OF True b [symmetric] refl "3.prems"(1) r this] show ?thesis .
    qed
  qed
qed (auto split: if_splits)

lemma shown_plain: "ev \<in> set (shown b a c g) \<Longrightarrow> \<not> isSettlement ev \<and> ev \<noteq> PerformGameAction p act r"
  by (auto simp: shown_def split: if_splits)

lemma messageRun_not_started:
  assumes "\<not> (\<exists>b g e1. resolveBet args = Inr b \<and> validateBetAmount b = ''''
                \<and> \<not> playerBalance < b \<and> dep_startGame d b a c e = (Some g, e1))"
    and "messageRun d args a c playerBalance aws e = Some (r, e', evs)"
  shows "r = ReturnedVoid \<and> (\<forall>ev\<in>set evs. \<not> isSettlement ev)
         \<and> (\<forall>p act res. PerformGameAction p act res \<notin> set evs)"
proof (cases "resolveBet args")
  case (Inl x)
  with assms(2) show ?thesis
    by (cases x) (auto simp: messageRun_def outerCatch_def)
next
  case (Inr b)
  show ?thesis
  proof (cases "validateBetAmount b = ''''")
    case False
    with Inr assms(2) show ?thesis
      by (auto simp: messageRun_def outerCatch_def)
  next
    case valid: True
    show ?thesis
    proof (cases "playerBalance < b")
      case True
      with Inr valid assms(2) show ?thesis
        by (auto simp: messageRun_def outerCatch_def)
    next
      case False
      obtain game e1 where s: "dep_startGame d b a c e = (game, e1)"
        by (cases "dep_startGame d b a c e") auto
      with assms(1) Inr valid False have "game = None"
        by (cases game) auto
      with Inr valid False s assms(2) show ?thesis
        by (auto simp: messageRun_def outerCatch_def)
    qed
  qed
qed

lemma messageRun_started:
  assumes "resolveBet args = Inr b" and "validateBetAmount b = ''''" and "\<not> playerBalance < b"
    and "dep_startGame d b a c e = (Some g, e1)"
  shows "messageRun d args a c playerBalance aws e =
           (case gameLoop d a aws (Some g) e1 of
              None \<Rightarrow> None
            | Some (None, e2, evs) \<Rightarrow> Some (ReturnedVoid, e2, shown b a c g @ evs)
            | Some (Some g', e2, evs) \<Rightarrow>
                Some (ReturnedMessage, dep_endGame d a e2,
                      (shown b a c g @ evs) @
                      [MsgEdit (getEmbedFromGame g'), ReactionsRemoveAll, EndGame a,
                       AdjustCoinBalanceByUserId a (getBalanceChange g') Blackjack]))"
  using assms
  by (simp add: messageRun_def shown_def this_endGame_def Let_def split: option.splits)

lemma messageRun_outcome:
  assumes "messageRun d args a c playerBalance aws e = Some (r, e', evs)"
  shows "(r = ReturnedVoid \<and> (\<forall>ev\<in>set evs. \<not> isSettlement ev)) \<or>
         (r = ReturnedMessage \<and>
          (\<exists>pre g. evs = pre @ [MsgEdit (getEmbedFromGame g), ReactionsRemoveAll, EndGame a,
                                AdjustCoinBalanceByUserId a (getBalanceChange g) Blackjack]
                   \<and> stage g = DONE \<and> (\<forall>ev\<in>set pre. \<not> isSettlement ev)))"
proof (cases "\<exists>b g e1. resolveBet args = Inr b \<and> validateBetAmount b = '''' \<and> \<not> playerBalance < b
                \<and> dep_startGame d b a c e = (Some g, e1)")
  case False
  from messageRun_not_started [OF False assms] show ?thesis by simp
next
  case True
  then obtain b g e1 where h: "resolveBet args = Inr b" "validateBetAmount b = ''''"
    "\<not> playerBalance < b" "dep_startGame d b a c e = (Some g, e1)"
    by blast
  note run = assms [unfolded messageRun_started [OF h]]
  from run obtain game' e2 evs2 where l: "gameLoop d a aws (Some g) e1 = Some (game', e2, evs2)"
    by (cases "gameLoop d a aws (Some g) e1") auto
  from gameLoop_no_settlement [OF l] shown_plain [of _ b a c g]
  have pre: "\<forall>ev\<in>set (shown b a c g @ evs2). \<not> isSettlement ev"
    by auto
  show ?thesis
  proof (cases game')
    case None
    with run l pre show ?thesis by auto
  next
    case (Some g')
    from gameLoop_final_stage [OF l [unfolded Some]] have "stage g' = DONE" .
    with run l Some pre show ?thesis by auto
  qed
qed

lemma messageRun_null:
  assumes "nullStaysNull d"
    and "messageRun d args a c playerBalance aws e = Some (r, e', evs)"
    and "PerformGameAction p act None \<in> set evs"
  shows "r = ReturnedVoid \<and> (\<forall>ev\<in>set evs. \<not> isSettlement ev)"
proof (cases "\<exists>b g e1. resolveBet args = Inr b \<and> validateBetAmount b = '''' \<and> \<not> playerBalance < b
                \<and> dep_startGame d b a c e = (Some g, e1)")
  case False
  from messageRun_not_started [OF False assms(2)] show ?thesis by simp
next
  case True
  then obtain b g e1 where h: "resolveBet args = Inr b" "validateBetAmount b = ''''"
    "\<not> playerBalance < b" "dep_startGame d b a c e = (Some g, e1)"
    by blast
  note run = assms(2) [unfolded messageRun_started [OF h]]
  from run obtain game' e2 evs2 where l: "gameLoop d a aws (Some g) e1 = Some (game', e2, evs2)"
    by (cases "gameLoop d a aws (Some g) e1") auto
  from gameLoop_no_settlement [OF l] shown_plain [of _ b a c g]
  have pre: "\<forall>ev\<in>set (shown b a c g @ evs2). \<not> isSettlement ev"
    by auto
  from run l assms(3) shown_plain [of "PerformGameAction p act None" b a c g p act None]
  have "PerformGameAction p act None \<in> set evs2"
    by (cases game') auto
  from gameLoop_null [OF assms(1) l this] have "game' = None" .
  with run l pre show ?thesis by auto
qed

text \<open>The equations that evaluate a run of the command on the instances.\<close>

lemmas run_simps =
  messageRun_def resolveBet_def DEFAULT_BET_def validateBetAmount_empty_iff MIN_BET_def MAX_BET_def
  outerCatch_def loopBody_def loopTry_def handlePlayerAction_def
  performActionFromReaction_def first_def callPerformGameAction_eq getEmbedFromGame_unchecked_def
  this_endGame_def awaitOptions_def reactFilter_def waitTimesOut_def waitCollects_def
  demo_def specEngine_def startGame_def performGameAction_def endGame_def
  demoDeal_def demoGame_def demoHit_def demoStand_def demoEmoji_def
  emoji_S_def emoji_H_def emoji_Q_def Let_def

text \<open>Facts about the engine of the specification, and about a loop that has nothing to do.\<close>

lemma performGameAction_null_final:
  assumes "fst (performGameAction hit stand playerId action reg) = None"
  shows "snd (performGameAction hit stand playerId action reg) = reg
         \<and> fst (performGameAction hit stand playerId QUIT reg) = None"
  using assms
  by (auto simp: performGameAction_def Let_def split: option.splits if_splits)

lemma specEngine_nullStaysNull: "nullStaysNull (specEngine deal hit stand emojis)"
  using performGameAction_null_final [of hit stand]
  by (simp add: nullStaysNull_def specEngine_def)

lemma unregistered_nullStaysNull: "nullStaysNull unregistered"
  using performGameAction_null_final [of demoHit demoStand]
  by (simp add: nullStaysNull_def unregistered_def)

lemma gameLoop_stops:
  "game = None \<or> (\<exists>g. game = Some g \<and> stage g = DONE) \<Longrightarrow>
   gameLoop d a aws game e = Some (game, e, [])"
  by (cases aws) auto

text \<open>A run that reaches the loop, and a run that adjusts the balance.\<close>

lemma messageRun_finished:
  assumes "resolveBet args = Inr b" and "validateBetAmount b = ''''" and "\<not> playerBalance < b"
    and "dep_startGame d b authorId channelId e = (Some dealt, started)"
    and "gameLoop d authorId aws (Some dealt) started = Some (Some final, ended, turns)"
  shows "stage final = DONE
         \<and> messageRun d args authorId channelId playerBalance aws e =
             Some (ReturnedMessage, dep_endGame d authorId ended,
                   shown b authorId channelId dealt @ turns @
                   [MsgEdit (getEmbedFromGame final), ReactionsRemoveAll, EndGame authorId,
                    AdjustCoinBalanceByUserId authorId (amountWon final - bet final) Blackjack])
         \<and> (\<forall>ev\<in>set (shown b authorId channelId dealt @ turns). \<not> isSettlement ev)"
proof -
  from gameLoop_final_stage [OF assms(5)] have fin: "stage final = DONE" .
  have run: "messageRun d args authorId channelId playerBalance aws e =
             Some (ReturnedMessage, dep_endGame d authorId ended,
                   shown b authorId channelId dealt @ turns @
                   [MsgEdit (getEmbedFromGame final), ReactionsRemoveAll, EndGame authorId,
                    AdjustCoinBalanceByUserId authorId (amountWon final - bet final) Blackjack])"
    by (simp add: messageRun_started [OF assms(1-4)] assms(5) getBalanceChange_def)
  from gameLoop_no_settlement [OF assms(5)] shown_plain [of _ b authorId channelId dealt]
  have plain: "\<forall>ev\<in>set (shown b authorId channelId dealt @ turns). \<not> isSettlement ev"
    by auto
  from fin run plain show ?thesis by blast
qed

lemma messageRun_adjusted:
  assumes "messageRun d args authorId channelId playerBalance aws e = Some (r, e', evs)"
    and "AdjustCoinBalanceByUserId p delta k \<in> set evs"
  shows "\<exists>b dealt started final ended turns.
           resolveBet args = Inr b \<and> validateBetAmount b = '''' \<and> \<not> playerBalance < b
           \<and> dep_startGame d b authorId channelId e = (Some dealt, started)
           \<and> gameLoop d authorId aws (Some dealt) started = Some (Some final, ended, turns)
           \<and> stage final = DONE
           \<and> r = ReturnedMessage \<and> e' = dep_endGame d authorId ended
           \<and> evs = shown b authorId channelId dealt @ turns @
                   [MsgEdit (getEmbedFromGame final), ReactionsRemoveAll, EndGame authorId,
                    AdjustCoinBalanceByUserId authorId (amountWon final - bet final) Blackjack]
           \<and> (\<forall>ev\<in>set (shown b authorId channelId dealt @ turns). \<not> isSettlement ev)
           \<and> p = authorId \<and> delta = amountWon final - bet final \<and> k = Blackjack"
proof -
  have settles: "isSettlement (AdjustCoinBalanceByUserId p delta k)"
    by simp
  have "\<exists>b g s. resolveBet args = Inr b \<and> validateBetAmount b = '''' \<and> \<not> playerBalance < b
                \<and> dep_startGame d b authorId channelId e = (Some g, s)"
  proof (rule ccontr)
    assume "\<not> ?thesis"
    from messageRun_not_started [OF this assms(1)] assms(2) settles show False
      by blast
  qed
  then obtain b dealt started where h: "resolveBet args = Inr b" "validateBetAmount b = ''''"
    "\<not> playerBalance < b" "dep_startGame d b authorId channelId e = (Some dealt, started)"
    by blast
  note run = assms(1) [unfolded messageRun_started [OF h]]
  from run obtain game ended turns where
    l: "gameLoop d authorId aws (Some dealt) started = Some (game, ended, turns)"
    by (cases "gameLoop d authorId aws (Some dealt) started") auto
  from gameLoop_no_settlement [OF l] shown_plain [of _ b authorId channelId dealt]
  have plain: "\<forall>ev\<in>set (shown b authorId channelId dealt @ turns). \<not> isSettlement ev"
    by auto
  show ?thesis
  proof (cases game)
    case None
    with run l have "evs = shown b authorId channelId dealt @ turns"
      by simp
    with plain assms(2) settles show ?thesis
      by blast
  next
    case (Some final)
    note f = messageRun_finished [OF h l [unfolded Some]]
    from f assms(1) have r: "r = ReturnedMessage" and e': "e' = dep_endGame d authorId ended"
      and evs: "evs = shown b authorId channelId dealt @ turns @
                   [MsgEdit (getEmbedFromGame final), ReactionsRemoveAll, EndGame authorId,
                    AdjustCoinBalanceByUserId authorId (amountWon final - bet final) Blackjack]"
      by simp_all
    from plain have "AdjustCoinBalanceByUserId p delta k \<notin> set (shown b authorId channelId dealt @ turns)"
      using settles by blast
    with assms(2) evs have last: "p = authorId" "delta = amountWon final - bet final" "k = Blackjack"
      by auto
    from h l [unfolded Some] f r e' evs last show ?thesis
      by blast
  qed
qed

subsection \<open>The claims\<close>

text \<open>
  Claim C1. \<open>getBalanceChange\<close> is \<open>amountWon - bet\<close>. Whenever the loop leaves a finished
  game, the command ends with the engine's \<open>endGame\<close> and one balance adjustment, for the player,
  by \<open>amountWon - bet\<close> of exactly that game; nothing before these two calls settles anything,
  and the adjustment is zero when \<open>amountWon\<close> equals \<open>bet\<close>. Conversely a run adjusts the
  balance only in this way: it returns the game message exactly when it adjusts, and every
  adjustment in a run is that last call, for the game the loop has left.
\<close>

theorem balance_change_is_amountWon_minus_bet:
  "getBalanceChange game = amountWon game - bet game
   \<and> (resolveBet args = Inr b \<longrightarrow> validateBetAmount b = '''' \<longrightarrow> \<not> playerBalance < b \<longrightarrow>
        dep_startGame d b authorId channelId e = (Some dealt, started) \<longrightarrow>
        gameLoop d authorId aws (Some dealt) started = Some (Some final, ended, turns) \<longrightarrow>
          stage final = DONE
          \<and> messageRun d args authorId channelId playerBalance aws e =
              Some (ReturnedMessage, dep_endGame d authorId ended,
                    shown b authorId channelId dealt @ turns @
                    [MsgEdit (getEmbedFromGame final), ReactionsRemoveAll, EndGame authorId,
                     AdjustCoinBalanceByUserId authorId (getBalanceChange final) Blackjack])
          \<and> (\<forall>ev\<in>set (shown b authorId channelId dealt @ turns). \<not> isSettlement ev)
          \<and> getBalanceChange final = amountWon final - bet final
          \<and> (amountWon final = bet final \<longrightarrow> getBalanceChange final = 0))
   \<and> (messageRun d args authorId channelId playerBalance aws e = Some (r, e', evs) \<longrightarrow>
        (r = ReturnedMessage \<longleftrightarrow> (\<exists>p delta k. AdjustCoinBalanceByUserId p delta k \<in> set evs))
        \<and> (\<forall>p delta k. AdjustCoinBalanceByUserId p delta k \<in> set evs \<longrightarrow>
              (\<exists>b dealt started final ended turns.
                 resolveBet args = Inr b
                 \<and> dep_startGame d b authorId channelId e = (Some dealt, started)
                 \<and> gameLoop d authorId aws (Some dealt) started = Some (Some final, ended, turns)
                 \<and> stage final = DONE
                 \<and> evs = shown b authorId channelId dealt @ turns @
                         [MsgEdit (getEmbedFromGame final), ReactionsRemoveAll, EndGame authorId,
                          AdjustCoinBalanceByUserId authorId (amountWon final - bet final) Blackjack]
                 \<and> (\<forall>ev\<in>set (shown b authorId channelId dealt @ turns). \<not> isSettlement ev)
                 \<and> p = authorId \<and> delta = amountWon final - bet final \<and> k = Blackjack
                 \<and> (amountWon final = bet final \<longrightarrow> delta = 0))))"
proof (intro conjI impI)
  show "getBalanceChange game = amountWon game - bet game"
    by (simp add: getBalanceChange_def)
next
  assume h: "resolveBet args = Inr b" "validateBetAmount b = ''''" "\<not> playerBalance < b"
    "dep_startGame d b authorId channelId e = (Some dealt, started)"
    "gameLoop d authorId aws (Some dealt) started = Some (Some final, ended, turns)"
  note f = messageRun_finished [OF h]
  from f show "stage final = DONE" by simp
  from f show "messageRun d args authorId channelId playerBalance aws e =
              Some (ReturnedMessage, dep_endGame d authorId ended,
                    shown b authorId channelId dealt @ turns @
                    [MsgEdit (getEmbedFromGame final), ReactionsRemoveAll, EndGame authorId,
                     AdjustCoinBalanceByUserId authorId (getBalanceChange final) Blackjack])"
    by (simp add: getBalanceChange_def)
  from f show "\<forall>ev\<in>set (shown b authorId channelId dealt @ turns). \<not> isSettlement ev"
    by simp
  show "getBalanceChange final = amountWon final - bet final"
    by (simp add: getBalanceChange_def)
  assume "amountWon final = bet final"
  then show "getBalanceChange final = 0"
    by (simp add: getBalanceChange_def)
next
  assume run: "messageRun d args authorId channelId playerBalance aws e = Some (r, e', evs)"
  show "r = ReturnedMessage \<longleftrightarrow> (\<exists>p delta k. AdjustCoinBalanceByUserId p delta k \<in> set evs)"
  proof
    assume "r = ReturnedMessage"
    with messageRun_outcome [OF run] obtain pre g where
      "evs = pre @ [MsgEdit (getEmbedFromGame g), ReactionsRemoveAll, EndGame authorId,
                    AdjustCoinBalanceByUserId authorId (getBalanceChange g) Blackjack]"
      by auto
    then have "AdjustCoinBalanceByUserId authorId (getBalanceChange g) Blackjack \<in> set evs"
      by simp
    then show "\<exists>p delta k. AdjustCoinBalanceByUserId p delta k \<in> set evs"
      by blast
  next
    assume "\<exists>p delta k. AdjustCoinBalanceByUserId p delta k \<in> set evs"
    then obtain p delta k where "AdjustCoinBalanceByUserId p delta k \<in> set evs"
      by blast
    from messageRun_adjusted [OF run this] show "r = ReturnedMessage"
      by blast
  qed
  show "\<forall>p delta k. AdjustCoinBalanceByUserId p delta k \<in> set evs \<longrightarrow>
              (\<exists>b dealt started final ended turns.
                 resolveBet args = Inr b
                 \<and> dep_startGame d b authorId channelId e = (Some dealt, started)
                 \<and> gameLoop d authorId aws (Some dealt) started = Some (Some final, ended, turns)
                 \<and> stage final = DONE
                 \<and> evs = shown b authorId channelId dealt @ turns @
                         [MsgEdit (getEmbedFromGame final), ReactionsRemoveAll, EndGame authorId,
                          AdjustCoinBalanceByUserId authorId (amountWon final - bet final) Blackjack]
                 \<and> (\<forall>ev\<in>set (shown b authorId channelId dealt @ turns). \<not> isSettlement ev)
                 \<and> p = authorId \<and> delta = amountWon final - bet final \<and> k = Blackjack
                 \<and> (amountWon final = bet final \<longrightarrow> delta = 0))"
  proof (intro allI impI)
    fix p delta k
    assume "AdjustCoinBalanceByUserId p delta k \<in> set evs"
    from messageRun_adjusted [OF run this]
    obtain b dealt started final ended turns where
      a: "resolveBet args = Inr b"
         "dep_startGame d b authorId channelId e = (Some dealt, started)"
         "gameLoop d authorId aws (Some dealt) started = Some (Some final, ended, turns)"
         "stage final = DONE"
         "evs = shown b authorId channelId dealt @ turns @
                   [MsgEdit (getEmbedFromGame final), ReactionsRemoveAll, EndGame authorId,
                    AdjustCoinBalanceByUserId authorId (amountWon final - bet final) Blackjack]"
         "\<forall>ev\<in>set (shown b authorId channelId dealt @ turns). \<not> isSettlement ev"
         "p = authorId" "delta = amountWon final - bet final" "k = Blackjack"
      by blast
    from a(8) have "amountWon final = bet final \<longrightarrow> delta = 0"
      by simp
    with a show "\<exists>b dealt started final ended turns.
                 resolveBet args = Inr b
                 \<and> dep_startGame d b authorId channelId e = (Some dealt, started)
                 \<and> gameLoop d authorId aws (Some dealt) started = Some (Some final, ended, turns)
                 \<and> stage final = DONE
                 \<and> evs = shown b authorId channelId dealt @ turns @
                         [MsgEdit (getEmbedFromGame final), ReactionsRemoveAll, EndGame authorId,
                          AdjustCoinBalanceByUserId authorId (amountWon final - bet final) Blackjack]
                 \<and> (\<forall>ev\<in>set (shown b authorId channelId dealt @ turns). \<not> isSettlement ev)
                 \<and> p = authorId \<and> delta = amountWon final - bet final \<and> k = Blackjack
                 \<and> (amountWon final = bet final \<longrightarrow> delta = 0)"
      by (intro exI [of _ b] exI [of _ dealt] exI [of _ started] exI [of _ final]
          exI [of _ ended] exI [of _ turns] conjI)
  qed
qed

theorem balance_change_is_amountWon_minus_bet_witness:
  "(\<exists>e' pre. messageRun demo (RestInteger 50) ''u1'' ''c1'' 100 [waitCollects emoji_H ''u1'']
                Map.empty =
              Some (ReturnedMessage, e',
                    pre @ [MsgEdit (getEmbedFromGame (demoHit (demoGame 50))), ReactionsRemoveAll,
                           EndGame ''u1'', AdjustCoinBalanceByUserId ''u1'' (- 50) Blackjack]))
   \<and> stage (demoHit (demoGame 50)) = DONE
   \<and> amountWon (demoHit (demoGame 50)) = 0 \<and> bet (demoHit (demoGame 50)) = 50"
proof -
  have r: "resolveBet (RestInteger 50) = Inr 50"
    by (simp add: resolveBet_def)
  have v: "validateBetAmount 50 = ''''"
    by (simp add: validateBetAmount_empty_iff MIN_BET_def MAX_BET_def)
  have b: "\<not> (100::int) < 50"
    by simp
  have s: "dep_startGame demo 50 ''u1'' ''c1'' Map.empty =
             (Some (demoGame 50), [''u1'' \<mapsto> demoGame 50])"
    by (simp add: demo_def specEngine_def startGame_def demoDeal_def)
  have "\<exists>ended turns. gameLoop demo ''u1'' [waitCollects emoji_H ''u1''] (Some (demoGame 50))
                         [''u1'' \<mapsto> demoGame 50] =
                       Some (Some (demoHit (demoGame 50)), ended, turns)"
    by (simp add: run_simps)
  then obtain ended turns where
    l: "gameLoop demo ''u1'' [waitCollects emoji_H ''u1''] (Some (demoGame 50))
          [''u1'' \<mapsto> demoGame 50] = Some (Some (demoHit (demoGame 50)), ended, turns)"
    by blast
  note t = balance_change_is_amountWon_minus_bet
      [where args = "RestInteger 50" and b = 50 and playerBalance = 100 and d = demo
         and authorId = "''u1''" and channelId = "''c1''" and e = Map.empty
         and dealt = "demoGame 50" and started = "[''u1'' \<mapsto> demoGame 50]"
         and aws = "[waitCollects emoji_H ''u1'']" and final = "demoHit (demoGame 50)"
         and ended = ended and turns = turns]
  have game: "amountWon (demoHit (demoGame 50)) = 0" "bet (demoHit (demoGame 50)) = 50"
    by (simp_all add: demoHit_def demoGame_def)
  from t r v b s l
  have fin: "stage (demoHit (demoGame 50)) = DONE"
    and run: "messageRun demo (RestInteger 50) ''u1'' ''c1'' 100 [waitCollects emoji_H ''u1'']
                Map.empty =
              Some (ReturnedMessage, dep_endGame demo ''u1'' ended,
                    shown 50 ''u1'' ''c1'' (demoGame 50) @ turns @
                    [MsgEdit (getEmbedFromGame (demoHit (demoGame 50))), ReactionsRemoveAll,
                     EndGame ''u1'',
                     AdjustCoinBalanceByUserId ''u1'' (getBalanceChange (demoHit (demoGame 50)))
                       Blackjack])"
    and change: "getBalanceChange (demoHit (demoGame 50)) =
                   amountWon (demoHit (demoGame 50)) - bet (demoHit (demoGame 50))"
    by blast+
  from change game have "getBalanceChange (demoHit (demoGame 50)) = - 50"
    by simp
  with run have "messageRun demo (RestInteger 50) ''u1'' ''c1'' 100 [waitCollects emoji_H ''u1'']
                Map.empty =
              Some (ReturnedMessage, dep_endGame demo ''u1'' ended,
                    (shown 50 ''u1'' ''c1'' (demoGame 50) @ turns) @
                    [MsgEdit (getEmbedFromGame (demoHit (demoGame 50))), ReactionsRemoveAll,
                     EndGame ''u1'', AdjustCoinBalanceByUserId ''u1'' (- 50) Blackjack])"
    by simp
  then have "\<exists>e' pre. messageRun demo (RestInteger 50) ''u1'' ''c1'' 100
                [waitCollects emoji_H ''u1''] Map.empty =
              Some (ReturnedMessage, e',
                    pre @ [MsgEdit (getEmbedFromGame (demoHit (demoGame 50))), ReactionsRemoveAll,
                           EndGame ''u1'', AdjustCoinBalanceByUserId ''u1'' (- 50) Blackjack])"
    by blast
  with fin game show ?thesis by blast
qed

text \<open>
  Claim C2. The command waits with a time limit of 60000 ms, for one reaction, and has the
  wait rejected at the time limit. When the wait is rejected, the turn of the loop makes exactly
  one engine call, \<open>performGameAction\<close> for the player with QUIT, replies to the player, and
  the loop stops after this turn.
\<close>

theorem timeout_submits_QUIT:
  assumes "aw awaitOptions (\<lambda>reaction user. reactFilter reaction user authorId) = Rejected"
  shows "opt_time awaitOptions = 60000 \<and> opt_max awaitOptions = 1
         \<and> opt_errors awaitOptions = [''time'']
         \<and> handlePlayerAction d aw authorId e = (Inl CollectorRejected, e, [])
         \<and> loopBody d aw authorId e =
             (map_option (\<lambda>g. g\<lparr>stage := DONE\<rparr>) (fst (dep_performGameAction d authorId QUIT e)),
              snd (dep_performGameAction d authorId QUIT e),
              [PerformGameAction authorId QUIT (fst (dep_performGameAction d authorId QUIT e)),
               MessageReply timeLimitReply])
         \<and> (stage g \<noteq> DONE \<longrightarrow>
              gameLoop d authorId (aw # aws) (Some g) e =
                Some (map_option (\<lambda>g. g\<lparr>stage := DONE\<rparr>)
                        (fst (dep_performGameAction d authorId QUIT e)),
                      snd (dep_performGameAction d authorId QUIT e),
                      [PerformGameAction authorId QUIT (fst (dep_performGameAction d authorId QUIT e)),
                       MessageReply timeLimitReply]))"
proof -
  have h: "handlePlayerAction d aw authorId e = (Inl CollectorRejected, e, [])"
    using assms by (simp add: handlePlayerAction_def)
  have b: "loopBody d aw authorId e =
             (map_option (\<lambda>g. g\<lparr>stage := DONE\<rparr>) (fst (dep_performGameAction d authorId QUIT e)),
              snd (dep_performGameAction d authorId QUIT e),
              [PerformGameAction authorId QUIT (fst (dep_performGameAction d authorId QUIT e)),
               MessageReply timeLimitReply])"
    using h by (simp add: loopBody_def loopTry_def callPerformGameAction_eq)
  have stop: "gameLoop d authorId aws
                (map_option (\<lambda>g. g\<lparr>stage := DONE\<rparr>) (fst (dep_performGameAction d authorId QUIT e)))
                (snd (dep_performGameAction d authorId QUIT e)) =
              Some (map_option (\<lambda>g. g\<lparr>stage := DONE\<rparr>)
                      (fst (dep_performGameAction d authorId QUIT e)),
                    snd (dep_performGameAction d authorId QUIT e), [])"
    by (rule gameLoop_stops) (cases "fst (dep_performGameAction d authorId QUIT e)", auto)
  have l: "stage g \<noteq> DONE \<longrightarrow>
              gameLoop d authorId (aw # aws) (Some g) e =
                Some (map_option (\<lambda>g. g\<lparr>stage := DONE\<rparr>)
                        (fst (dep_performGameAction d authorId QUIT e)),
                      snd (dep_performGameAction d authorId QUIT e),
                      [PerformGameAction authorId QUIT (fst (dep_performGameAction d authorId QUIT e)),
                       MessageReply timeLimitReply])"
    by (simp add: b stop)
  have o: "opt_time awaitOptions = 60000 \<and> opt_max awaitOptions = 1
         \<and> opt_errors awaitOptions = [''time'']"
    by (simp add: awaitOptions_def)
  from o h b l show ?thesis by blast
qed

theorem timeout_submits_QUIT_witness:
  "waitTimesOut awaitOptions (\<lambda>reaction user. reactFilter reaction user ''u1'') = Rejected
   \<and> loopBody demo waitTimesOut ''u1'' [''u1'' \<mapsto> demoGame 20] =
       (Some ((demoGame 20)\<lparr>surrendered := True, amountWon := 0, stage := DONE\<rparr>),
        [''u1'' \<mapsto> (demoGame 20)\<lparr>surrendered := True, amountWon := 0, stage := DONE\<rparr>],
        [PerformGameAction ''u1'' QUIT
           (Some ((demoGame 20)\<lparr>surrendered := True, amountWon := 0, stage := DONE\<rparr>)),
         MessageReply timeLimitReply])
   \<and> map_option (fst \<circ> snd)
        (gameLoop demo ''u1'' [waitTimesOut, waitTimesOut] (Some (demoGame 20))
           [''u1'' \<mapsto> demoGame 20]) =
       Some [''u1'' \<mapsto> (demoGame 20)\<lparr>surrendered := True, amountWon := 0, stage := DONE\<rparr>]"
proof -
  have w: "waitTimesOut awaitOptions (\<lambda>reaction user. reactFilter reaction user ''u1'') = Rejected"
    by (simp add: waitTimesOut_def)
  have q: "dep_performGameAction demo ''u1'' QUIT [''u1'' \<mapsto> demoGame 20] =
             (Some ((demoGame 20)\<lparr>surrendered := True, amountWon := 0, stage := DONE\<rparr>),
              [''u1'' \<mapsto> (demoGame 20)\<lparr>surrendered := True, amountWon := 0, stage := DONE\<rparr>])"
    by (simp add: demo_def specEngine_def performGameAction_def demoGame_def Let_def)
  have s: "stage (demoGame 20) \<noteq> DONE"
    by (simp add: demoGame_def)
  note t = timeout_submits_QUIT [where aw = waitTimesOut and authorId = "''u1''" and d = demo
      and e = "[''u1'' \<mapsto> demoGame 20]" and g = "demoGame 20" and aws = "[waitTimesOut]", OF w]
  have b: "loopBody demo waitTimesOut ''u1'' [''u1'' \<mapsto> demoGame 20] =
       (Some ((demoGame 20)\<lparr>surrendered := True, amountWon := 0, stage := DONE\<rparr>),
        [''u1'' \<mapsto> (demoGame 20)\<lparr>surrendered := True, amountWon := 0, stage := DONE\<rparr>],
        [PerformGameAction ''u1'' QUIT
           (Some ((demoGame 20)\<lparr>surrendered := True, amountWon := 0, stage := DONE\<rparr>)),
         MessageReply timeLimitReply])"
    using t unfolding q by simp
  have l: "map_option (fst \<circ> snd)
        (gameLoop demo ''u1'' [waitTimesOut, waitTimesOut] (Some (demoGame 20))
           [''u1'' \<mapsto> demoGame 20]) =
       Some [''u1'' \<mapsto> (demoGame 20)\<lparr>surrendered := True, amountWon := 0, stage := DONE\<rparr>]"
    using t s unfolding q by simp
  from w b l show ?thesis by blast
qed

text \<open>
  Claim C3. \<open>validateBetAmount\<close> returns a non-empty message exactly for the amounts below
  10 or above 1000000; and when it does for the bet of a request, the command sends that message
  to the user as a \<open>CodeyUserError\<close> and does nothing else: the engine's state is untouched and
  \<open>startGame\<close> is not among the calls.
\<close>

theorem bet_bounds_enforced:
  "(validateBetAmount amount \<noteq> '''' \<longleftrightarrow> amount < 10 \<or> amount > 1000000)
   \<and> (resolveBet args = Inr b \<longrightarrow> validateBetAmount b \<noteq> '''' \<longrightarrow>
        messageRun d args authorId channelId playerBalance aws e =
          Some (ReturnedVoid, e, [SendToUser (validateBetAmount b)]))"
  by (auto simp: validateBetAmount_empty_iff MIN_BET_def MAX_BET_def messageRun_def outerCatch_def)

theorem bet_bounds_enforced_witness:
  "validateBetAmount 5 = ''minimum bet is 10 Codey coins.''
   \<and> validateBetAmount 1000001 = ''maximum bet is 1000000 Codey coins.''
   \<and> map_option (\<lambda>(r, e, evs). (r, evs))
        (messageRun demo (RestInteger 5) ''u1'' ''c1'' 100 [waitTimesOut] Map.empty) =
       Some (ReturnedVoid, [SendToUser ''minimum bet is 10 Codey coins.''])"
proof -
  have v: "validateBetAmount 5 = ''minimum bet is 10 Codey coins.''"
    unfolding validateBetAmount_def show_MIN_BET show_MAX_BET
    by (simp add: MIN_BET_def MAX_BET_def)
  have v': "validateBetAmount 1000001 = ''maximum bet is 1000000 Codey coins.''"
    unfolding validateBetAmount_def show_MIN_BET show_MAX_BET
    by (simp add: MIN_BET_def MAX_BET_def)
  have r: "resolveBet (RestInteger 5) = Inr 5"
    by (simp add: resolveBet_def)
  from bet_bounds_enforced [of 5 "RestInteger 5" 5 demo "''u1''" "''c1''" 100 "[waitTimesOut]" Map.empty]
    v v' r show ?thesis by simp
qed

text \<open>
  Claim C4. The engine of the specification returns null from \<open>startGame\<close> for a player
  who is in the registry, and leaves the registry as it is. For every engine, when
  \<open>startGame\<close> returns null the command sends "please finish your current game before starting
  another one!" to the user and returns: no reaction is awaited, no action performed, no game
  ended and no balance adjusted.
\<close>

theorem active_game_is_reported:
  "(reg playerId \<noteq> None \<longrightarrow> startGame deal b playerId channelId reg = (None, reg))
   \<and> (resolveBet args = Inr b \<longrightarrow> validateBetAmount b = '''' \<longrightarrow> \<not> playerBalance < b \<longrightarrow>
        fst (dep_startGame d b authorId channelId e) = None \<longrightarrow>
        messageRun d args authorId channelId playerBalance aws e =
          Some (ReturnedVoid, snd (dep_startGame d b authorId channelId e),
                [GetCoinBalanceByUserId authorId, StartGame b authorId channelId None,
                 SendToUser ''please finish your current game before starting another one!'']))"
  by (auto simp: startGame_def messageRun_def outerCatch_def split: prod.splits)

theorem active_game_is_reported_witness:
  "startGame demoDeal 50 ''u1'' ''c1'' [''u1'' \<mapsto> demoGame 20] = (None, [''u1'' \<mapsto> demoGame 20])
   \<and> map_option (\<lambda>(r, e, evs). (r, evs))
        (messageRun demo (RestInteger 50) ''u1'' ''c1'' 100 [waitTimesOut] [''u1'' \<mapsto> demoGame 20]) =
       Some (ReturnedVoid,
             [GetCoinBalanceByUserId ''u1'', StartGame 50 ''u1'' ''c1'' None,
              SendToUser ''please finish your current game before starting another one!''])"
proof -
  note t = active_game_is_reported
         [where reg = "[''u1'' \<mapsto> demoGame 20]" and playerId = "''u1''" and deal = demoDeal
            and b = 50 and channelId = "''c1''" and args = "RestInteger 50" and playerBalance = 100
            and d = demo and authorId = "''u1''" and e = "[''u1'' \<mapsto> demoGame 20]"
            and aws = "[waitTimesOut]"]
  have s: "startGame demoDeal 50 ''u1'' ''c1'' [''u1'' \<mapsto> demoGame 20] =
             (None, [''u1'' \<mapsto> demoGame 20])"
    using t by simp
  have r: "resolveBet (RestInteger 50) = Inr 50"
    by (simp add: resolveBet_def)
  have v: "validateBetAmount 50 = ''''"
    by (simp add: validateBetAmount_empty_iff MIN_BET_def MAX_BET_def)
  have d: "dep_startGame demo 50 ''u1'' ''c1'' [''u1'' \<mapsto> demoGame 20] =
             (None, [''u1'' \<mapsto> demoGame 20])"
    using s by (simp add: demo_def specEngine_def)
  have "messageRun demo (RestInteger 50) ''u1'' ''c1'' 100 [waitTimesOut] [''u1'' \<mapsto> demoGame 20] =
          Some (ReturnedVoid, [''u1'' \<mapsto> demoGame 20],
                [GetCoinBalanceByUserId ''u1'', StartGame 50 ''u1'' ''c1'' None,
                 SendToUser ''please finish your current game before starting another one!''])"
    using t r v d by simp
  with s show ?thesis by simp
qed

text \<open>
  Claim C5. Whenever the player's balance is below the bet, the command ends with a user error
  and calls no engine function: the only events are the balance read (when the bet itself is
  valid) and the error sent to the user, and the engine's state is untouched.
\<close>

theorem insufficient_balance_rejected:
  assumes "resolveBet args = Inr b" and "playerBalance < b"
  shows "messageRun d args authorId channelId playerBalance aws e =
           Some (ReturnedVoid, e,
                 if validateBetAmount b \<noteq> '''' then [SendToUser (validateBetAmount b)]
                 else [GetCoinBalanceByUserId authorId, SendToUser (notEnoughCoins d)])"
  using assms by (simp add: messageRun_def outerCatch_def)

theorem insufficient_balance_rejected_witness:
  "map_option (\<lambda>(r, e, evs). (r, evs))
     (messageRun demo (RestInteger 50) ''u1'' ''c1'' 49 [waitTimesOut] Map.empty) =
   Some (ReturnedVoid,
         [GetCoinBalanceByUserId ''u1'',
          SendToUser (''you don'' @ [CHR 0x27] @ ''t have enough coins to place that bet. :codey_sad:'')])"
proof -
  have r: "resolveBet (RestInteger 50) = Inr 50"
    by (simp add: resolveBet_def)
  have v: "validateBetAmount 50 = ''''"
    by (simp add: validateBetAmount_empty_iff MIN_BET_def MAX_BET_def)
  have n: "notEnoughCoins demo = ''you don'' @ [CHR 0x27] @ ''t have enough coins to place that bet. :codey_sad:''"
    by (simp add: notEnoughCoins_def demo_def specEngine_def demoEmoji_def)
  from insufficient_balance_rejected [OF r, of 49 demo "''u1''" "''c1''" "[waitTimesOut]" Map.empty] v n
  show ?thesis by simp
qed

text \<open>
  Claim C6. In every run of the command, \<open>endGame\<close> is called only at the end, after the loop
  has left a game that is not null and whose stage is DONE (the game shown by the last edit).
  For an engine whose null result is final, a null result of \<open>performGameAction\<close> stops the
  loop in the same turn, and the run ends without \<open>endGame\<close> and without a balance
  adjustment. The engine of the specification is such an engine.
\<close>

theorem endGame_only_when_DONE:
  assumes "messageRun d args authorId channelId playerBalance aws e = Some (r, e', evs)"
  shows "(\<forall>p. EndGame p \<in> set evs \<longrightarrow>
            (\<exists>pre g. evs = pre @ [MsgEdit (getEmbedFromGame g), ReactionsRemoveAll,
                                   EndGame authorId,
                                   AdjustCoinBalanceByUserId authorId (getBalanceChange g) Blackjack]
                     \<and> stage g = DONE \<and> p = authorId \<and> (\<forall>ev\<in>set pre. \<not> isSettlement ev)))
         \<and> (nullStaysNull d \<longrightarrow> (\<exists>p action. PerformGameAction p action None \<in> set evs) \<longrightarrow>
               r = ReturnedVoid \<and> (\<forall>ev\<in>set evs. \<not> isSettlement ev))
         \<and> (nullStaysNull d \<longrightarrow> stage current \<noteq> DONE \<longrightarrow>
               (\<exists>p action. PerformGameAction p action None
                              \<in> set (snd (snd (loopBody d aw authorId engine)))) \<longrightarrow>
               gameLoop d authorId (aw # aws') (Some current) engine =
                 Some (None, snd (loopBody d aw authorId engine)))
         \<and> nullStaysNull (specEngine deal hit stand emojis)"
proof -
  have ended: "\<forall>p. EndGame p \<in> set evs \<longrightarrow>
            (\<exists>pre g. evs = pre @ [MsgEdit (getEmbedFromGame g), ReactionsRemoveAll,
                                   EndGame authorId,
                                   AdjustCoinBalanceByUserId authorId (getBalanceChange g) Blackjack]
                     \<and> stage g = DONE \<and> p = authorId \<and> (\<forall>ev\<in>set pre. \<not> isSettlement ev))"
  proof (intro allI impI)
    fix p
    assume p: "EndGame p \<in> set evs"
    from messageRun_outcome [OF assms]
    consider (void) "\<forall>ev\<in>set evs. \<not> isSettlement ev"
      | (message) pre g where
          "evs = pre @ [MsgEdit (getEmbedFromGame g), ReactionsRemoveAll, EndGame authorId,
                        AdjustCoinBalanceByUserId authorId (getBalanceChange g) Blackjack]"
          "stage g = DONE" "\<forall>ev\<in>set pre. \<not> isSettlement ev"
      by blast
    then show "\<exists>pre g. evs = pre @ [MsgEdit (getEmbedFromGame g), ReactionsRemoveAll,
                                   EndGame authorId,
                                   AdjustCoinBalanceByUserId authorId (getBalanceChange g) Blackjack]
                     \<and> stage g = DONE \<and> p = authorId \<and> (\<forall>ev\<in>set pre. \<not> isSettlement ev)"
    proof cases
      case void
      with p show ?thesis by fastforce
    next
      case message
      from message(3) have "EndGame p \<notin> set pre" by fastforce
      with p message(1) have "p = authorId" by simp
      with message show ?thesis
        by (intro exI [of _ pre] exI [of _ g]) simp
    qed
  qed
  have null: "nullStaysNull d \<longrightarrow> (\<exists>p action. PerformGameAction p action None \<in> set evs) \<longrightarrow>
               r = ReturnedVoid \<and> (\<forall>ev\<in>set evs. \<not> isSettlement ev)"
    using messageRun_null [OF _ assms] by blast
  have turn: "nullStaysNull d \<longrightarrow> stage current \<noteq> DONE \<longrightarrow>
               (\<exists>p action. PerformGameAction p action None
                              \<in> set (snd (snd (loopBody d aw authorId engine)))) \<longrightarrow>
               gameLoop d authorId (aw # aws') (Some current) engine =
                 Some (None, snd (loopBody d aw authorId engine))"
  proof (intro impI)
    assume n: "nullStaysNull d" and s: "stage current \<noteq> DONE"
      and "\<exists>p action. PerformGameAction p action None \<in> set (snd (snd (loopBody d aw authorId engine)))"
    then obtain p action where
      ev: "PerformGameAction p action None \<in> set (snd (snd (loopBody d aw authorId engine)))"
      by blast
    obtain game e1 evs1 where b: "loopBody d aw authorId engine = (game, e1, evs1)"
      by (cases "loopBody d aw authorId engine") auto
    from loopBody_null [OF n b] ev b have "game = None" by simp
    with s b show "gameLoop d authorId (aw # aws') (Some current) engine =
                     Some (None, snd (loopBody d aw authorId engine))"
      by simp
  qed
  from ended null turn specEngine_nullStaysNull [of deal hit stand emojis] show ?thesis
    by blast
qed

theorem endGame_only_when_DONE_witness:
  "(\<exists>e' pre g. messageRun demo (RestInteger 50) ''u1'' ''c1'' 100 [waitCollects emoji_H ''u1'']
                 Map.empty =
               Some (ReturnedMessage, e',
                     pre @ [MsgEdit (getEmbedFromGame g), ReactionsRemoveAll, EndGame ''u1'',
                            AdjustCoinBalanceByUserId ''u1'' (- 50) Blackjack])
               \<and> stage g = DONE \<and> (\<forall>ev\<in>set pre. \<not> isSettlement ev))
   \<and> (\<exists>e' evs. messageRun unregistered (RestInteger 50) ''u1'' ''c1'' 100
                  [waitCollects emoji_H ''u1''] Map.empty =
                Some (ReturnedVoid, e', evs)
                \<and> PerformGameAction ''u1'' HIT None \<in> set evs
                \<and> (\<forall>ev\<in>set evs. \<not> isSettlement ev))
   \<and> gameLoop unregistered ''u1'' [waitCollects emoji_H ''u1'', waitTimesOut]
        (Some (demoGame 50)) Map.empty =
       Some (None, snd (loopBody unregistered (waitCollects emoji_H ''u1'') ''u1'' Map.empty))"
proof -
  have "\<exists>e' pre. messageRun demo (RestInteger 50) ''u1'' ''c1'' 100 [waitCollects emoji_H ''u1'']
                 Map.empty =
               Some (ReturnedMessage, e', pre @ [EndGame ''u1'',
                            AdjustCoinBalanceByUserId ''u1'' (- 50) Blackjack])"
    by (simp add: run_simps getBalanceChange_def)
  then obtain e1 pre1 where run1: "messageRun demo (RestInteger 50) ''u1'' ''c1'' 100
        [waitCollects emoji_H ''u1''] Map.empty =
      Some (ReturnedMessage, e1,
            pre1 @ [EndGame ''u1'', AdjustCoinBalanceByUserId ''u1'' (- 50) Blackjack])"
    by blast
  note t1 = endGame_only_when_DONE [OF run1]
  have "EndGame ''u1'' \<in> set (pre1 @ [EndGame ''u1'',
          AdjustCoinBalanceByUserId ''u1'' (- 50) Blackjack])"
    by simp
  with t1 obtain pre g where
    shape: "pre1 @ [EndGame ''u1'', AdjustCoinBalanceByUserId ''u1'' (- 50) Blackjack] =
       pre @ [MsgEdit (getEmbedFromGame g), ReactionsRemoveAll, EndGame ''u1'',
              AdjustCoinBalanceByUserId ''u1'' (getBalanceChange g) Blackjack]"
    and fin: "stage g = DONE" and plain: "\<forall>ev\<in>set pre. \<not> isSettlement ev"
    by blast
  from shape have "getBalanceChange g = - 50"
    by (simp add: append_eq_append_conv2 Cons_eq_append_conv)
  with shape run1 fin plain
  have first: "\<exists>e' pre g. messageRun demo (RestInteger 50) ''u1'' ''c1'' 100
                 [waitCollects emoji_H ''u1''] Map.empty =
               Some (ReturnedMessage, e',
                     pre @ [MsgEdit (getEmbedFromGame g), ReactionsRemoveAll, EndGame ''u1'',
                            AdjustCoinBalanceByUserId ''u1'' (- 50) Blackjack])
               \<and> stage g = DONE \<and> (\<forall>ev\<in>set pre. \<not> isSettlement ev)"
    by (intro exI [of _ e1] exI [of _ pre] exI [of _ g]) simp
  have "\<exists>r e' evs. messageRun unregistered (RestInteger 50) ''u1'' ''c1'' 100
                  [waitCollects emoji_H ''u1''] Map.empty = Some (r, e', evs)
                \<and> PerformGameAction ''u1'' HIT None \<in> set evs"
    by (simp add: run_simps unregistered_def)
  then obtain r2 e2 evs2 where run2: "messageRun unregistered (RestInteger 50) ''u1'' ''c1'' 100
        [waitCollects emoji_H ''u1''] Map.empty = Some (r2, e2, evs2)"
    and null2: "PerformGameAction ''u1'' HIT None \<in> set evs2"
    by blast
  note t2 = endGame_only_when_DONE [where aw = "waitCollects emoji_H ''u1''"
      and current = "demoGame 50" and engine = Map.empty and aws' = "[waitTimesOut]", OF run2]
  from t2 unregistered_nullStaysNull null2
  have "r2 = ReturnedVoid \<and> (\<forall>ev\<in>set evs2. \<not> isSettlement ev)"
    by blast
  with run2 null2
  have second: "\<exists>e' evs. messageRun unregistered (RestInteger 50) ''u1'' ''c1'' 100
                  [waitCollects emoji_H ''u1''] Map.empty =
                Some (ReturnedVoid, e', evs)
                \<and> PerformGameAction ''u1'' HIT None \<in> set evs
                \<and> (\<forall>ev\<in>set evs. \<not> isSettlement ev)"
    by blast
  have s: "stage (demoGame 50) \<noteq> DONE"
    by (simp add: demoGame_def)
  have ev: "\<exists>p action. PerformGameAction p action None
              \<in> set (snd (snd (loopBody unregistered (waitCollects emoji_H ''u1'') ''u1'' Map.empty)))"
    by (intro exI [of _ "''u1''"] exI [of _ HIT]) (simp add: run_simps unregistered_def)
  from t2 unregistered_nullStaysNull s ev
  have third: "gameLoop unregistered ''u1'' [waitCollects emoji_H ''u1'', waitTimesOut]
        (Some (demoGame 50)) Map.empty =
       Some (None, snd (loopBody unregistered (waitCollects emoji_H ''u1'') ''u1'' Map.empty))"
    by blast
  from first second third show ?thesis by blast
qed

text \<open>
  Claim C7. In the engine of the specification, QUIT on a game in progress gives the same game
  with \<open>surrendered\<close> set, \<open>amountWon\<close> zero and stage DONE, whatever the hands are. The
  state the engine returns is already DONE: the command's turn returns it as it is for the
  reaction Q, and the assignment of DONE after a rejected wait changes nothing.
\<close>

theorem quit_settles_as_full_loss:
  assumes "reg playerId = Some g" and "stage g = IN_PROGRESS"
  shows "\<exists>g'. performGameAction hit stand playerId QUIT reg = (Some g', reg(playerId \<mapsto> g'))
           \<and> surrendered g' \<and> amountWon g' = 0 \<and> stage g' = DONE
           \<and> g' = g\<lparr>surrendered := True, amountWon := 0, stage := DONE\<rparr>
           \<and> bet g' = bet g \<and> playerValue g' = playerValue g \<and> dealerValue g' = dealerValue g
           \<and> (aw awaitOptions (\<lambda>reaction user. reactFilter reaction user playerId) =
                 Resolved [\<lparr>emoji_name = Some emoji_Q\<rparr>] \<longrightarrow>
               fst (loopBody (specEngine deal hit stand emojis) aw playerId reg) = Some g')
           \<and> (aw awaitOptions (\<lambda>reaction user. reactFilter reaction user playerId) = Rejected \<longrightarrow>
               fst (loopBody (specEngine deal hit stand emojis) aw playerId reg) = Some g'
               \<and> map_option (\<lambda>g. g\<lparr>stage := DONE\<rparr>)
                    (fst (performGameAction hit stand playerId QUIT reg)) =
                   fst (performGameAction hit stand playerId QUIT reg))"
proof -
  let ?g' = "g\<lparr>surrendered := True, amountWon := 0, stage := DONE\<rparr>"
  have q: "performGameAction hit stand playerId QUIT reg = (Some ?g', reg(playerId \<mapsto> ?g'))"
    using assms by (simp add: performGameAction_def Let_def)
  have distinct: "emoji_Q \<noteq> emoji_S" "emoji_Q \<noteq> emoji_H"
    by (simp_all add: emoji_S_def emoji_H_def emoji_Q_def)
  have reacted: "aw awaitOptions (\<lambda>reaction user. reactFilter reaction user playerId) =
                 Resolved [\<lparr>emoji_name = Some emoji_Q\<rparr>] \<longrightarrow>
               fst (loopBody (specEngine deal hit stand emojis) aw playerId reg) = Some ?g'"
    using distinct
    by (simp add: loopBody_def loopTry_def handlePlayerAction_def performActionFromReaction_def
        first_def callPerformGameAction_eq getEmbedFromGame_unchecked_def specEngine_def q)
  have timed: "aw awaitOptions (\<lambda>reaction user. reactFilter reaction user playerId) = Rejected \<longrightarrow>
               fst (loopBody (specEngine deal hit stand emojis) aw playerId reg) = Some ?g'"
    by (simp add: loopBody_def loopTry_def handlePlayerAction_def callPerformGameAction_eq
        specEngine_def q)
  from q reacted timed show ?thesis
    by (intro exI [of _ ?g']) simp
qed

theorem quit_settles_as_full_loss_witness:
  "performGameAction demoHit demoStand ''u1'' QUIT [''u1'' \<mapsto> demoGame 20] =
     (Some ((demoGame 20)\<lparr>surrendered := True, amountWon := 0, stage := DONE\<rparr>),
      [''u1'' \<mapsto> (demoGame 20)\<lparr>surrendered := True, amountWon := 0, stage := DONE\<rparr>])
   \<and> playerValue (demoGame 20) = [17] \<and> dealerValue (demoGame 20) = [10]
   \<and> fst (loopBody demo (waitCollects emoji_Q ''u1'') ''u1'' [''u1'' \<mapsto> demoGame 20]) =
       Some ((demoGame 20)\<lparr>surrendered := True, amountWon := 0, stage := DONE\<rparr>)
   \<and> fst (loopBody demo waitTimesOut ''u1'' [''u1'' \<mapsto> demoGame 20]) =
       Some ((demoGame 20)\<lparr>surrendered := True, amountWon := 0, stage := DONE\<rparr>)"
proof -
  have r: "[''u1'' \<mapsto> demoGame 20] ''u1'' = Some (demoGame 20)"
    by simp
  have s: "stage (demoGame 20) = IN_PROGRESS"
    by (simp add: demoGame_def)
  have w1: "waitCollects emoji_Q ''u1'' awaitOptions (\<lambda>reaction user. reactFilter reaction user ''u1'') =
              Resolved [\<lparr>emoji_name = Some emoji_Q\<rparr>]"
    by (simp add: waitCollects_def reactFilter_def)
  have w2: "waitTimesOut awaitOptions (\<lambda>reaction user. reactFilter reaction user ''u1'') = Rejected"
    by (simp add: waitTimesOut_def)
  have v: "playerValue (demoGame 20) = [17] \<and> dealerValue (demoGame 20) = [10]"
    by (simp add: demoGame_def)
  from quit_settles_as_full_loss [where reg = "[''u1'' \<mapsto> demoGame 20]" and playerId = "''u1''"
      and g = "demoGame 20" and hit = demoHit and stand = demoStand
      and aw = "waitCollects emoji_Q ''u1''" and deal = demoDeal and emojis = demoEmoji, OF r s] w1
  have a: "performGameAction demoHit demoStand ''u1'' QUIT [''u1'' \<mapsto> demoGame 20] =
     (Some ((demoGame 20)\<lparr>surrendered := True, amountWon := 0, stage := DONE\<rparr>),
      [''u1'' \<mapsto> (demoGame 20)\<lparr>surrendered := True, amountWon := 0, stage := DONE\<rparr>])
     \<and> fst (loopBody demo (waitCollects emoji_Q ''u1'') ''u1'' [''u1'' \<mapsto> demoGame 20]) =
       Some ((demoGame 20)\<lparr>surrendered := True, amountWon := 0, stage := DONE\<rparr>)"
    unfolding demo_def by auto
  from quit_settles_as_full_loss [where reg = "[''u1'' \<mapsto> demoGame 20]" and playerId = "''u1''"
      and g = "demoGame 20" and hit = demoHit and stand = demoStand
      and aw = waitTimesOut and deal = demoDeal and emojis = demoEmoji, OF r s] w2
  have b: "fst (loopBody demo waitTimesOut ''u1'' [''u1'' \<mapsto> demoGame 20]) =
       Some ((demoGame 20)\<lparr>surrendered := True, amountWon := 0, stage := DONE\<rparr>)"
    unfolding demo_def by auto
  from a b v show ?thesis by blast
qed

text \<open>
  Claim C8. \<open>reactFilter\<close> accepts exactly the three emojis, and only from the player.
  \<open>performActionFromReaction\<close> follows the mapping S to STAND, H to HIT, Q to QUIT: it calls
  \<open>performGameAction\<close> once, for the player, with the mapped action, and returns null without
  any engine call for another emoji, a null name or no reaction at all.
\<close>

theorem reactions_map_to_actions:
  "(reactFilter reaction user authorId \<longleftrightarrow>
      emoji_name reaction \<in> {Some emoji_S, Some emoji_H, Some emoji_Q} \<and> user_id user = authorId)
   \<and> claimedAction (Some emoji_S) = Some STAND
   \<and> claimedAction (Some emoji_H) = Some HIT
   \<and> claimedAction (Some emoji_Q) = Some QUIT
   \<and> (name \<notin> {Some emoji_S, Some emoji_H, Some emoji_Q} \<longrightarrow> claimedAction name = None)
   \<and> performActionFromReaction d collected playerId e =
       (let removed = (if collected = [] then [] else [ReactionUserRemove playerId])
        in case claimedAction (Option.bind (first collected) emoji_name) of
             None \<Rightarrow> (None, e, removed)
           | Some action \<Rightarrow>
               (fst (dep_performGameAction d playerId action e),
                snd (dep_performGameAction d playerId action e),
                removed @ [PerformGameAction playerId action
                             (fst (dep_performGameAction d playerId action e))]))
   \<and> (\<forall>ev \<in> set (snd (snd (performActionFromReaction d collected playerId e))).
         \<forall>p action res. ev = PerformGameAction p action res \<longrightarrow>
           p = playerId \<and> action \<in> {HIT, STAND, QUIT}
           \<and> claimedAction (Option.bind (first collected) emoji_name) = Some action)"
proof -
  have distinct: "emoji_S \<noteq> emoji_H" "emoji_S \<noteq> emoji_Q" "emoji_H \<noteq> emoji_Q"
    by (simp_all add: emoji_S_def emoji_H_def emoji_Q_def)
  have filter: "reactFilter reaction user authorId \<longleftrightarrow>
      emoji_name reaction \<in> {Some emoji_S, Some emoji_H, Some emoji_Q} \<and> user_id user = authorId"
    by (auto simp: reactFilter_def split: option.splits)
  have claimed: "claimedAction (Some emoji_S) = Some STAND" "claimedAction (Some emoji_H) = Some HIT"
    "claimedAction (Some emoji_Q) = Some QUIT"
    "name \<notin> {Some emoji_S, Some emoji_H, Some emoji_Q} \<longrightarrow> claimedAction name = None"
    using distinct by (auto simp: claimedAction_def)
  have perform: "performActionFromReaction d collected playerId e =
       (let removed = (if collected = [] then [] else [ReactionUserRemove playerId])
        in case claimedAction (Option.bind (first collected) emoji_name) of
             None \<Rightarrow> (None, e, removed)
           | Some action \<Rightarrow>
               (fst (dep_performGameAction d playerId action e),
                snd (dep_performGameAction d playerId action e),
                removed @ [PerformGameAction playerId action
                             (fst (dep_performGameAction d playerId action e))]))"
    using distinct
    by (cases collected)
      (auto simp: performActionFromReaction_def callPerformGameAction_eq first_def Let_def
        claimedAction_def split: option.splits)
  have calls: "\<forall>ev \<in> set (snd (snd (performActionFromReaction d collected playerId e))).
         \<forall>p action res. ev = PerformGameAction p action res \<longrightarrow>
           p = playerId \<and> action \<in> {HIT, STAND, QUIT}
           \<and> claimedAction (Option.bind (first collected) emoji_name) = Some action"
  proof -
    have all: "action \<in> {HIT, STAND, QUIT}" for action
      by (cases action) auto
    show ?thesis
      unfolding perform using all
      by (auto simp: Let_def split: option.splits)
  qed
  from filter claimed perform calls show ?thesis
    by blast
qed

theorem reactions_map_to_actions_witness:
  "reactFilter \<lparr>emoji_name = Some emoji_H\<rparr> \<lparr>user_id = ''u1''\<rparr> ''u1''
   \<and> \<not> reactFilter \<lparr>emoji_name = Some emoji_H\<rparr> \<lparr>user_id = ''u2''\<rparr> ''u1''
   \<and> \<not> reactFilter \<lparr>emoji_name = Some ''x''\<rparr> \<lparr>user_id = ''u1''\<rparr> ''u1''
   \<and> \<not> reactFilter \<lparr>emoji_name = None\<rparr> \<lparr>user_id = ''u1''\<rparr> ''u1''
   \<and> claimedAction (Some ''x'') = None
   \<and> snd (snd (performActionFromReaction demo [\<lparr>emoji_name = Some emoji_H\<rparr>] ''u1''
                  [''u1'' \<mapsto> demoGame 20])) =
       [ReactionUserRemove ''u1'', PerformGameAction ''u1'' HIT (Some (demoHit (demoGame 20)))]
   \<and> snd (snd (performActionFromReaction demo [\<lparr>emoji_name = Some ''x''\<rparr>] ''u1''
                  [''u1'' \<mapsto> demoGame 20])) = [ReactionUserRemove ''u1'']
   \<and> snd (snd (performActionFromReaction demo [] ''u1'' [''u1'' \<mapsto> demoGame 20])) = []"
proof -
  have x: "Some ''x'' \<notin> {Some emoji_S, Some emoji_H, Some emoji_Q}"
    by (simp add: emoji_S_def emoji_H_def emoji_Q_def)
  have p: "fst (dep_performGameAction demo ''u1'' HIT [''u1'' \<mapsto> demoGame 20]) =
             Some (demoHit (demoGame 20))"
    by (simp add: demo_def specEngine_def performGameAction_def demoGame_def Let_def)
  note t = reactions_map_to_actions [where authorId = "''u1''" and d = demo and playerId = "''u1''"
      and e = "[''u1'' \<mapsto> demoGame 20]" and name = "Some ''x''"]
  have f1: "reactFilter \<lparr>emoji_name = Some emoji_H\<rparr> \<lparr>user_id = ''u1''\<rparr> ''u1''"
    using t [where reaction = "\<lparr>emoji_name = Some emoji_H\<rparr>" and user = "\<lparr>user_id = ''u1''\<rparr>"]
    by simp
  have f2: "\<not> reactFilter \<lparr>emoji_name = Some emoji_H\<rparr> \<lparr>user_id = ''u2''\<rparr> ''u1''"
    using t [where reaction = "\<lparr>emoji_name = Some emoji_H\<rparr>" and user = "\<lparr>user_id = ''u2''\<rparr>"]
    by simp
  have f3: "\<not> reactFilter \<lparr>emoji_name = Some ''x''\<rparr> \<lparr>user_id = ''u1''\<rparr> ''u1''"
    using t [where reaction = "\<lparr>emoji_name = Some ''x''\<rparr>" and user = "\<lparr>user_id = ''u1''\<rparr>"] x
    by simp
  have f4: "\<not> reactFilter \<lparr>emoji_name = None\<rparr> \<lparr>user_id = ''u1''\<rparr> ''u1''"
    using t [where reaction = "\<lparr>emoji_name = None\<rparr>" and user = "\<lparr>user_id = ''u1''\<rparr>"]
    by simp
  have c: "claimedAction (Some ''x'') = None"
    using t x by blast
  have h: "claimedAction (Some emoji_H) = Some HIT"
    using t by blast
  have p1: "snd (snd (performActionFromReaction demo [\<lparr>emoji_name = Some emoji_H\<rparr>] ''u1''
                  [''u1'' \<mapsto> demoGame 20])) =
       [ReactionUserRemove ''u1'', PerformGameAction ''u1'' HIT (Some (demoHit (demoGame 20)))]"
    using t [where collected = "[\<lparr>emoji_name = Some emoji_H\<rparr>]"] h p
    by (simp add: first_def)
  have p2: "snd (snd (performActionFromReaction demo [\<lparr>emoji_name = Some ''x''\<rparr>] ''u1''
                  [''u1'' \<mapsto> demoGame 20])) = [ReactionUserRemove ''u1'']"
    using t [where collected = "[\<lparr>emoji_name = Some ''x''\<rparr>]"] c
    by (simp add: first_def)
  have p3: "snd (snd (performActionFromReaction demo [] ''u1'' [''u1'' \<mapsto> demoGame 20])) = []"
    using t [where collected = "[]"]
    by (simp add: first_def claimedAction_def)
  from f1 f2 f3 f4 c p1 p2 p3 show ?thesis by blast
qed

text \<open>
  Claim C9. The colour of the embed depends on the stage and on the sign of
  \<open>amountWon - bet\<close> only: yellow while the game is not done; once done, red for a loss, green
  for a gain, orange when the two are equal. The last conjunct says that nothing else of the game
  matters.
\<close>

theorem embed_colour_by_stage_and_sign:
  "(stage game \<noteq> DONE \<longrightarrow> getEmbedColourFromGame game = Yellow)
   \<and> (stage game = DONE \<and> amountWon game < bet game \<longrightarrow> getEmbedColourFromGame game = Red)
   \<and> (stage game = DONE \<and> amountWon game > bet game \<longrightarrow> getEmbedColourFromGame game = Green)
   \<and> (stage game = DONE \<and> amountWon game = bet game \<longrightarrow> getEmbedColourFromGame game = Orange)
   \<and> getEmbedColourFromGame game =
       getEmbedColourFromGame
         \<lparr>stage = stage game, bet = 0, amountWon = amountWon game - bet game, surrendered = False,
          playerCards = [], dealerCards = [], playerValue = [], dealerValue = []\<rparr>"
  by (simp add: getEmbedColourFromGame_def getBalanceChange_def)

theorem embed_colour_by_stage_and_sign_witness:
  "getEmbedColourFromGame (demoGame 50) = Yellow
   \<and> getEmbedColourFromGame (demoHit (demoGame 50)) = Red
   \<and> getEmbedColourFromGame (demoStand (demoGame 50)) = Green
   \<and> getEmbedColourFromGame ((demoGame 50)\<lparr>amountWon := 50, stage := DONE\<rparr>) = Orange"
  using embed_colour_by_stage_and_sign [of "demoGame 50"]
    embed_colour_by_stage_and_sign [of "demoHit (demoGame 50)"]
    embed_colour_by_stage_and_sign [of "demoStand (demoGame 50)"]
    embed_colour_by_stage_and_sign [of "(demoGame 50)\<lparr>amountWon := 50, stage := DONE\<rparr>"]
  by (simp add: demoGame_def demoHit_def demoStand_def)

text \<open>
  Claim C10. Without arguments the bet is the default, 10, which is the minimum bet; it passes
  \<open>validateBetAmount\<close>, and the command goes on to the balance check: it reads the balance, and
  with fewer than 10 coins it reports the lack of coins, otherwise it calls \<open>startGame\<close> with 10.
\<close>

theorem default_bet_passes_validation:
  "resolveBet Finished = Inr DEFAULT_BET \<and> DEFAULT_BET = 10 \<and> DEFAULT_BET = MIN_BET
   \<and> validateBetAmount DEFAULT_BET = ''''
   \<and> (playerBalance < 10 \<longrightarrow>
        messageRun d Finished authorId channelId playerBalance aws e =
          Some (ReturnedVoid, e, [GetCoinBalanceByUserId authorId, SendToUser (notEnoughCoins d)]))
   \<and> (\<not> playerBalance < 10 \<longrightarrow>
        messageRun d Finished authorId channelId playerBalance aws e = Some (r, e', evs) \<longrightarrow>
        (\<exists>rest. evs = GetCoinBalanceByUserId authorId
                   # StartGame 10 authorId channelId (fst (dep_startGame d 10 authorId channelId e))
                   # rest))"
  by (auto simp: resolveBet_def DEFAULT_BET_def MIN_BET_def validateBetAmount_empty_iff MAX_BET_def
      messageRun_def outerCatch_def Let_def split: prod.splits option.splits)

theorem default_bet_passes_validation_witness:
  "map_option (\<lambda>(r, e, evs). (r, evs))
     (messageRun demo Finished ''u1'' ''c1'' 9 [] Map.empty) =
   Some (ReturnedVoid, [GetCoinBalanceByUserId ''u1'', SendToUser (notEnoughCoins demo)])
   \<and> (\<exists>e' rest. messageRun demo Finished ''u1'' ''c1'' 10 [waitTimesOut] Map.empty =
         Some (ReturnedMessage, e',
               GetCoinBalanceByUserId ''u1'' # StartGame 10 ''u1'' ''c1'' (Some (demoGame 10)) # rest))"
proof -
  have "\<exists>e' evs. messageRun demo Finished ''u1'' ''c1'' 10 [waitTimesOut] Map.empty =
               Some (ReturnedMessage, e', evs)"
    by (simp add: run_simps)
  then obtain e' evs where r: "messageRun demo Finished ''u1'' ''c1'' 10 [waitTimesOut] Map.empty =
               Some (ReturnedMessage, e', evs)"
    by blast
  have s: "fst (dep_startGame demo 10 ''u1'' ''c1'' Map.empty) = Some (demoGame 10)"
    by (simp add: demo_def specEngine_def startGame_def demoDeal_def)
  have poor: "messageRun demo Finished ''u1'' ''c1'' 9 [] Map.empty =
          Some (ReturnedVoid, Map.empty,
                [GetCoinBalanceByUserId ''u1'', SendToUser (notEnoughCoins demo)])"
    using default_bet_passes_validation
         [where playerBalance = 9 and d = demo and authorId = "''u1''" and channelId = "''c1''"
            and aws = "[]" and e = Map.empty]
    by (simp add: DEFAULT_BET_def MIN_BET_def)
  have "\<exists>rest. evs = GetCoinBalanceByUserId ''u1''
                   # StartGame 10 ''u1'' ''c1'' (fst (dep_startGame demo 10 ''u1'' ''c1'' Map.empty))
                   # rest"
    using default_bet_passes_validation
         [where playerBalance = 10 and d = demo and authorId = "''u1''" and channelId = "''c1''"
            and aws = "[waitTimesOut]" and e = Map.empty and r = ReturnedMessage and e' = e'
            and evs = evs] r
    by (simp add: DEFAULT_BET_def MIN_BET_def)
  then obtain rest where "evs = GetCoinBalanceByUserId ''u1''
                   # StartGame 10 ''u1'' ''c1'' (Some (demoGame 10)) # rest"
    unfolding s by blast
  with r have "\<exists>e' rest. messageRun demo Finished ''u1'' ''c1'' 10 [waitTimesOut] Map.empty =
         Some (ReturnedMessage, e',
               GetCoinBalanceByUserId ''u1'' # StartGame 10 ''u1'' ''c1'' (Some (demoGame 10)) # rest)"
    by blast
  with poor show ?thesis by simp
qed

end
